theory Spec2Isabelle
  imports Main "HOL-Library.Char_ord" "HOL-Library.List_Lexorder" "HOL-Library.Product_Lexorder"
begin

section \<open>Python values, exceptions and outcomes\<close>

text \<open>
  The experiment controller \<^verbatim>\<open>MininetSmartCampusExperiment\<close> is embedded function by
  function. Every exception the source can raise is a value of \<open>error\<close>; a result is
  \<open>error + 'a\<close> for the pure helpers and an \<open>outcome\<close> for the procedures that talk to the
  emulator and the controller.
\<close>

datatype error =
    AssertionError | KeyError | IndexError | ValueError | TypeError | AttributeError
  | NotImplementedError | AddressValueError | ZeroDivisionError | NetworkXNoPath

text \<open>\<open>[f(x) for x in xs]\<close> where \<open>f\<close> may raise: the first exception ends the comprehension.\<close>

fun map_result :: "('a \<Rightarrow> error + 'b) \<Rightarrow> 'a list \<Rightarrow> error + 'b list" where
  "map_result f [] = Inr []"
| "map_result f (x # xs) =
     (case f x of
        Inl e \<Rightarrow> Inl e
      | Inr y \<Rightarrow> (case map_result f xs of Inl e \<Rightarrow> Inl e | Inr ys \<Rightarrow> Inr (y # ys)))"

text \<open>Python's \<open>range(n)\<close> and \<open>range(a, b)\<close> over unbounded integers.\<close>

definition py_range :: "int \<Rightarrow> int list" where
  "py_range n = map int [0..<nat n]"

definition py_range2 :: "int \<Rightarrow> int \<Rightarrow> int list" where
  "py_range2 a b = map (\<lambda>k. a + int k) [0..<nat (b - a)]"

text \<open>\<open>str.upper()\<close> on the ASCII letters and \<open>str.replace(a, b)\<close> for single characters.\<close>

definition upper_char :: "char \<Rightarrow> char" where
  "upper_char c =
     (if CHR ''a'' \<le> c \<and> c \<le> CHR ''z'' then char_of (of_char c - (32::nat)) else c)"

definition upper :: "string \<Rightarrow> string" where
  "upper s = map upper_char s"

definition replace_char :: "char \<Rightarrow> char \<Rightarrow> string \<Rightarrow> string" where
  "replace_char a b s = map (\<lambda>c. if c = a then b else c) s"

subsection \<open>The \<open>ipaddress\<close> module: IPv4 addresses as integers below \<open>2 ^ 32\<close>\<close>

definition digit_char :: "nat \<Rightarrow> char" where
  "digit_char d = char_of (48 + d)"

fun str_nat :: "nat \<Rightarrow> string" where
  "str_nat n = (if n < 10 then [digit_char n] else str_nat (n div 10) @ [digit_char (n mod 10)])"

declare str_nat.simps [simp del]

text \<open>\<open>IPv4Address(n)\<close> raises \<open>AddressValueError\<close> outside \<open>0 .. 2 ^ 32 - 1\<close>;
  \<open>addr + i\<close> is \<open>IPv4Address(int(addr) + i)\<close>; \<open>str(addr)\<close> is the dotted quad.\<close>

definition IPv4Address :: "int \<Rightarrow> error + int" where
  "IPv4Address a = (if a < 0 \<or> 4294967295 < a then Inl AddressValueError else Inr a)"

definition octet :: "int \<Rightarrow> nat \<Rightarrow> nat" where
  "octet a k = nat ((a div 256 ^ k) mod 256)"

definition ipv4_str :: "int \<Rightarrow> string" where
  "ipv4_str a =
     str_nat (octet a 3) @ ''.'' @ str_nat (octet a 2) @ ''.'' @
     str_nat (octet a 1) @ ''.'' @ str_nat (octet a 0)"

section \<open>Configuration constants and the three topology views\<close>

text \<open>
  The constants and the address helpers come from \<^verbatim>\<open>config.py\<close> and \<^verbatim>\<open>ride/config.py\<close>,
  which the class imports with \<^verbatim>\<open>from config import *\<close>; they are parameters here.
  Durations are whole seconds.
\<close>

record config =
  MULTICAST_ADDRESS_BASE :: int
  MULTICAST_ALERT_BASE_SRC_PORT :: int
  PROBE_BASE_SRC_PORT :: int
  ECHO_SERVER_PORT :: int
  IPERF_BASE_PORT :: int
  STATIC_PATH_FLOW_RULE_PRIORITY :: int
  SEISMIC_EVENT_DELAY :: nat
  TIME_BETWEEN_SEISMIC_EVENTS :: nat
  EXPERIMENT_DURATION :: nat
  ALL_PAIRS :: bool
  DISTANCE_METRIC :: string
  get_mac_for_switch :: "string \<Rightarrow> bool \<Rightarrow> bool \<Rightarrow> string"
  get_ip_mac_for_host :: "string \<Rightarrow> string \<times> string"

text \<open>Mininet nodes. A \<open>NAT\<close> is a \<open>Node\<close> that is neither a \<open>Host\<close> nor a \<open>Switch\<close>.\<close>

datatype host = Host (h_name: string) (h_ip: string) (h_mac: string)

datatype switch = Switch (s_name: string) (s_dpid: string)

datatype node = HostNode host | SwitchNode switch | NatNode string

fun node_name :: "node \<Rightarrow> string" where
  "node_name (HostNode h) = h_name h"
| "node_name (SwitchNode s) = s_name s"
| "node_name (NatNode n) = n"

text \<open>A link of the emulation: its two end names and, for a \<open>TCLink\<close>, bandwidth and latency.\<close>

datatype link = Link (l_from: string) (l_to: string) (l_tc: "(nat \<times> nat) option")

text \<open>
  \<open>self.topo\<close>, the \<^verbatim>\<open>NetworkxSdnTopology\<close> read from the topology file. Its queries are
  fields; \<open>get_path\<close> takes the optional weight attribute and returns \<open>None\<close> where networkx
  raises for a missing path.
\<close>

record topology =
  get_switches :: "string list"
  get_hosts :: "string list"
  get_servers :: "string list"
  get_clouds :: "string list"
  get_links :: "(string \<times> string \<times> nat option \<times> nat option) list"
  is_cloud_gateway :: "string \<Rightarrow> bool"
  number_of_edges :: nat
  get_path :: "string \<Rightarrow> string \<Rightarrow> string option \<Rightarrow> string list option"

text \<open>
  \<open>self.net\<close>, the Mininet object: \<open>addHost\<close>, \<open>addSwitch\<close> and \<open>addNAT\<close> append the new node
  to \<open>hosts\<close> or \<open>switches\<close> and bind its name in \<open>nameToNode\<close> (a later node of the same name
  replaces the binding, the list keeps both); \<open>get\<close> reads \<open>nameToNode\<close> and raises
  \<open>KeyError\<close> for an unknown name. A host added with no address gets the next automatic one.
\<close>

record mininet =
  net_hosts :: "node list"
  net_switches :: "switch list"
  net_links :: "link list"
  nameToNode :: "string \<Rightarrow> node option"
  nextIP :: nat

definition Mininet :: mininet where
  "Mininet = \<lparr>net_hosts = [], net_switches = [], net_links = [],
              nameToNode = (\<lambda>_. None), nextIP = 1\<rparr>"

definition auto_ip :: "nat \<Rightarrow> string" where
  "auto_ip k = ''auto-ip-'' @ str_nat k"

definition auto_mac :: "nat \<Rightarrow> string" where
  "auto_mac k = ''auto-mac-'' @ str_nat k"

definition addHost :: "string \<Rightarrow> (string \<times> string) option \<Rightarrow> mininet \<Rightarrow> host \<times> mininet" where
  "addHost n params net =
     (let h = (case params of
                 None \<Rightarrow> Host n (auto_ip (nextIP net)) (auto_mac (nextIP net))
               | Some (ip, mac) \<Rightarrow> Host n ip mac)
      in (h, net\<lparr>net_hosts := net_hosts net @ [HostNode h],
                  nameToNode := (nameToNode net)(n \<mapsto> HostNode h),
                  nextIP := nextIP net + 1\<rparr>))"

definition addSwitch :: "string \<Rightarrow> string \<Rightarrow> mininet \<Rightarrow> switch \<times> mininet" where
  "addSwitch n d net =
     (let s = Switch n d
      in (s, net\<lparr>net_switches := net_switches net @ [s],
                  nameToNode := (nameToNode net)(n \<mapsto> SwitchNode s)\<rparr>))"

definition addLink :: "string \<Rightarrow> string \<Rightarrow> (nat \<times> nat) option \<Rightarrow> mininet \<Rightarrow> link \<times> mininet" where
  "addLink a b tc net = (let l = Link a b tc in (l, net\<lparr>net_links := net_links net @ [l]\<rparr>))"

definition addNAT :: "host option \<Rightarrow> mininet \<Rightarrow> node \<times> mininet" where
  "addNAT connect net =
     (let n = NatNode ''nat0'';
          net1 = net\<lparr>net_hosts := net_hosts net @ [n],
                     nameToNode := (nameToNode net)(''nat0'' \<mapsto> n),
                     nextIP := nextIP net + 1\<rparr>
      in (n, (case connect of
                None \<Rightarrow> net1
              | Some c \<Rightarrow> snd (addLink ''nat0'' (h_name c) None net1))))"

definition net_get :: "mininet \<Rightarrow> string \<Rightarrow> error + node" where
  "net_get net n = (case nameToNode net n of None \<Rightarrow> Inl KeyError | Some x \<Rightarrow> Inr x)"

section \<open>The experiment object\<close>

text \<open>
  The fields of \<open>self\<close> that the modelled methods read or write. The pseudo-random choices
  of the superclass (publishers, subscribers, traffic generators, failure sets) are inputs.
\<close>

record mininet_experiment =
  comparison :: "string option"
  ntrees :: int
  with_cloud :: bool
  with_ride_c :: bool
  with_ride_d :: bool
  topology_adapter_type :: string
  mcast_address_pool :: "(string \<times> int) list"
  topo :: topology
  net :: mininet
  hosts :: "host list"
  switches :: "switch list"
  cloud_gateways :: "switch list"
  cloud_switches :: "switch list"
  links :: "link list"
  nat_node :: "node option"
  server_switch :: "switch option"
  server :: "host option"
  cloud :: "host option"
  publishers :: "host list"
  subscribers :: "host list"
  generators :: "string list"
  failed_links :: "(string \<times> string) list"
  failed_nodes :: "node list"

subsection \<open>\<open>__init__\<close>: the comparison check and the multicast address pool\<close>

text \<open>
  Lines 84-88 and 131-132. \<open>kwargs['ntrees']\<close> raises \<open>KeyError\<close> when the caller gave no
  \<open>ntrees\<close> keyword.
\<close>

definition check_comparison :: "string option \<Rightarrow> error + unit" where
  "check_comparison c =
     (case c of
        None \<Rightarrow> Inr ()
      | Some v \<Rightarrow> if v = ''oracle'' \<or> v = ''unicast'' then Inr () else Inl AssertionError)"

definition build_mcast_address_pool :: "config \<Rightarrow> int \<Rightarrow> error + (string \<times> int) list" where
  "build_mcast_address_pool cfg n =
     (case IPv4Address (MULTICAST_ADDRESS_BASE cfg) of
        Inl e \<Rightarrow> Inl e
      | Inr base_addr \<Rightarrow>
          map_result
            (\<lambda>i. case IPv4Address (base_addr + i) of
                    Inl e \<Rightarrow> Inl e
                  | Inr a \<Rightarrow> Inr (ipv4_str a, MULTICAST_ALERT_BASE_SRC_PORT cfg + i))
            (py_range n))"

definition init :: "config \<Rightarrow> string option \<Rightarrow> int option \<Rightarrow> mininet_experiment \<Rightarrow> error + mininet_experiment" where
  "init cfg cmp kwargs_ntrees self =
     (case check_comparison cmp of
        Inl e \<Rightarrow> Inl e
      | Inr _ \<Rightarrow>
          (case kwargs_ntrees of
             None \<Rightarrow> Inl KeyError
           | Some n \<Rightarrow>
               (case build_mcast_address_pool cfg n of
                  Inl e \<Rightarrow> Inl e
                | Inr pool \<Rightarrow>
                    Inr (self\<lparr>comparison := cmp, ntrees := n, mcast_address_pool := pool,
                              net := Mininet, hosts := [], switches := [], cloud_gateways := [],
                              cloud_switches := [], links := [], nat_node := None,
                              server_switch := None\<rparr>))))"

subsection \<open>\<open>setup_topology\<close> (lines 196-306)\<close>

text \<open>
  One definition per loop body. The traffic-control parameters kept for a link are
  bandwidth and latency with the default 10 of \<open>attributes.get\<close>; jitter and loss are the
  same for every link and are left out. The switch DPID is stored as it is passed.
\<close>

fun fold_result :: "('s \<Rightarrow> 'a \<Rightarrow> error + 's) \<Rightarrow> 's \<Rightarrow> 'a list \<Rightarrow> error + 's" where
  "fold_result f s [] = Inr s"
| "fold_result f s (x # xs) = (case f s x of Inl e \<Rightarrow> Inl e | Inr s1 \<Rightarrow> fold_result f s1 xs)"

definition add_topo_switch :: "config \<Rightarrow> mininet_experiment \<Rightarrow> string \<Rightarrow> mininet_experiment" where
  "add_topo_switch cfg self sw =
     (let mac = get_mac_for_switch cfg sw False False;
          (s, net1) = addSwitch sw mac (net self);
          self1 = self\<lparr>net := net1, switches := switches self @ [s]\<rparr>
      in if is_cloud_gateway (topo self) sw
         then self1\<lparr>cloud_gateways := cloud_gateways self1 @ [s]\<rparr>
         else self1)"

definition add_topo_host :: "config \<Rightarrow> mininet_experiment \<Rightarrow> string \<Rightarrow> mininet_experiment" where
  "add_topo_host cfg self hn =
     (let (h, net1) = addHost hn (Some (get_ip_mac_for_host cfg hn)) (net self)
      in self\<lparr>net := net1, hosts := hosts self @ [h]\<rparr>)"

definition add_server :: "config \<Rightarrow> mininet_experiment \<Rightarrow> string \<Rightarrow> mininet_experiment" where
  "add_server cfg self srv =
     (let server_switch_name = replace_char CHR ''s'' CHR ''e'' srv;
          server_switch_dpid = get_mac_for_switch cfg server_switch_name True False;
          (sw, net1) = addSwitch srv server_switch_dpid (net self);
          hn = ''h'' @ srv;
          (s, net2) = addHost hn (Some (get_ip_mac_for_host cfg hn)) net1;
          (l, net3) = addLink srv hn None net2
      in self\<lparr>net := net3, server_switch := Some sw, server := Some s\<rparr>)"

definition add_cloud :: "config \<Rightarrow> mininet_experiment \<Rightarrow> string \<Rightarrow> mininet_experiment" where
  "add_cloud cfg self cl =
     (if with_cloud self then
        (let cloud_switch_name = replace_char CHR ''x'' CHR ''f'' cl;
             cloud_switch_dpid = get_mac_for_switch cfg cloud_switch_name False True;
             (cloud_switch, net1) = addSwitch cl cloud_switch_dpid (net self);
             hn = ''h'' @ cl;
             (h, net2) = addHost hn (Some (get_ip_mac_for_host cfg hn)) net1;
             (l, net3) = addLink cl hn None net2
         in self\<lparr>net := net3, cloud_switches := cloud_switches self @ [cloud_switch],
                  cloud := Some h\<rparr>)
      else
        (let (h1, net1) = addHost cl None (net self);
             (h2, net2) = addHost cl None net1
         in self\<lparr>net := net2, cloud := Some h2\<rparr>))"

definition add_topo_link ::
  "mininet_experiment \<Rightarrow> string \<times> string \<times> nat option \<times> nat option \<Rightarrow> error + mininet_experiment" where
  "add_topo_link self lk =
     (case lk of (from_link, to_link, bw, latency) \<Rightarrow>
        (case net_get (net self) from_link of
           Inl e \<Rightarrow> Inl e
         | Inr a \<Rightarrow>
             (case net_get (net self) to_link of
                Inl e \<Rightarrow> Inl e
              | Inr b \<Rightarrow>
                  (let tc = (case_option 10 id bw, case_option 10 id latency);
                       (l, net1) = addLink (node_name a) (node_name b) (Some tc) (net self)
                   in Inr (self\<lparr>net := net1, links := links self @ [l]\<rparr>)))))"

definition setup_topology ::
  "config \<Rightarrow> topology \<Rightarrow> mininet_experiment \<Rightarrow> error + mininet_experiment" where
  "setup_topology cfg tp self =
     (let self0 = self\<lparr>net := Mininet, topo := tp\<rparr>;
          self1 = foldl (add_topo_switch cfg) self0 (get_switches tp);
          self2 = foldl (add_topo_host cfg) self1 (get_hosts tp);
          self3 = foldl (add_server cfg) self2 (get_servers tp);
          self4 = foldl (add_cloud cfg) self3 (get_clouds tp)
      in (case fold_result add_topo_link self4 (get_links tp) of
            Inl e \<Rightarrow> Inl e
          | Inr self5 \<Rightarrow>
              (let (n, net6) = addNAT (server self5) (net self5);
                   self6 = self5\<lparr>net := net6, nat_node := Some n\<rparr>
               in (case server self6 of None \<Rightarrow> Inl AttributeError | Some s \<Rightarrow> Inr self6))))"

subsection \<open>Data-plane identifiers (lines 1115-1158)\<close>

definition get_host_dpid :: "mininet_experiment \<Rightarrow> host option \<Rightarrow> error + string" where
  "get_host_dpid self ho =
     (if topology_adapter_type self = ''onos'' then
        (case ho of None \<Rightarrow> Inl AttributeError | Some h \<Rightarrow> Inr (upper (h_mac h) @ ''/None''))
      else if topology_adapter_type self = ''floodlight'' then
        (case ho of None \<Rightarrow> Inl AttributeError | Some h \<Rightarrow> Inr (h_ip h))
      else Inl ValueError)"

definition get_switch_dpid :: "mininet_experiment \<Rightarrow> switch \<Rightarrow> error + string" where
  "get_switch_dpid self s =
     (if topology_adapter_type self = ''onos'' then Inr (''of:'' @ s_dpid s)
      else if topology_adapter_type self = ''floodlight'' then Inl NotImplementedError
      else Inl ValueError)"

fun get_node_dpid :: "mininet_experiment \<Rightarrow> node \<Rightarrow> error + string" where
  "get_node_dpid self (SwitchNode s) = get_switch_dpid self s"
| "get_node_dpid self (HostNode h) = get_host_dpid self (Some h)"
| "get_node_dpid self (NatNode n) = Inl TypeError"

text \<open>\<open>_get_mininet_nodes\<close> (line 318).\<close>

definition get_mininet_nodes :: "mininet_experiment \<Rightarrow> string list \<Rightarrow> error + node list" where
  "get_mininet_nodes self nodes = map_result (net_get (net self)) nodes"

text \<open>The \<open>data_path_links\<close> property (lines 1160-1167). \<open>cloud_switches\<close> is a list in every
  state of the object, so the \<open>None\<close> branch of the source is not reachable.\<close>

definition data_path_links :: "mininet_experiment \<Rightarrow> error + (string \<times> string) list" where
  "data_path_links self =
     map_result
       (\<lambda>gw. case cloud_switches self of
               [] \<Rightarrow> Inl IndexError
             | c # _ \<Rightarrow> Inr (s_name gw, s_name c))
       (cloud_gateways self)"

section \<open>The emulator and the controller as an environment\<close>

text \<open>
  What the driver does to the emulation and to the controller is recorded as a trace of
  events; warnings and errors written to the log are events too (informational and debug
  lines are not recorded). A flow rule is whatever the adapter's
  \<open>build_flow_rules_from_path\<close> returns, so its type is a parameter.
\<close>

datatype status = Down | Up

datatype 'r event =
    NetStart
  | Sleep nat
  | SetDefaultRoute
  | SetHostRoute string
  | PingAll "string list"
  | Ping string string
  | StaticArp
  | SetARP string
  | BuildTopologyAdapter nat nat nat
  | LogWarning string
  | LogError string
  | IperfClient string int
  | IperfServer string int
  | InstallFlowRules "'r list"
  | Popen string string
  | ConfigLinkStatus string string status
  | StopNode string

text \<open>Match predicates: a Python \<open>dict\<close> of keyword arguments, passed as \<open>add_matches\<close>, or
  the object the adapter's \<open>build_matches\<close> makes of such keywords.\<close>

datatype mval = Port int | Addr string

datatype matches =
    NoMatches
  | AddMatches "string \<Rightarrow> mval option"
  | BuiltMatches "string \<Rightarrow> mval option"

text \<open>
  The topology adapter (\<^verbatim>\<open>topology_manager\<close>) and the outside world. \<open>controller_views\<close> are
  the host, link and switch counts that the successive adapters built by
  \<open>setup_topology_manager\<close> report; \<open>install_result k\<close> is what the \<open>k\<close>-th call of
  \<open>install_flow_rules\<close> returns; \<open>elapsed e\<close> is the time the operation \<open>e\<close> takes beyond a
  requested sleep.
\<close>

record 'r environment =
  adapter_get_path :: "string \<Rightarrow> string \<Rightarrow> string \<Rightarrow> string list option"
  merge_paths :: "string list \<Rightarrow> string list \<Rightarrow> string list"
  build_flow_rules_from_path :: "string list \<Rightarrow> matches \<Rightarrow> int \<Rightarrow> 'r list"
  install_result :: "nat \<Rightarrow> bool"
  controller_views :: "(nat \<times> nat \<times> nat) list"
  elapsed :: "'r event \<Rightarrow> nat"

record 'r world =
  trace :: "'r event list"
  now :: nat
  ninstalls :: nat

text \<open>
  A procedure returns a value, raises, or is still waiting in an unbounded loop when the
  observations supplied by the environment run out.
\<close>

datatype 'a outcome = Returns 'a | Raises error | Waits

type_synonym ('a, 'r) io = "'r world \<Rightarrow> 'a outcome \<times> 'r world"

definition ret :: "'a \<Rightarrow> ('a, 'r) io" where
  "ret x = (\<lambda>w. (Returns x, w))"

definition raise :: "error \<Rightarrow> ('a, 'r) io" where
  "raise e = (\<lambda>w. (Raises e, w))"

definition bnd :: "('a, 'r) io \<Rightarrow> ('a \<Rightarrow> ('b, 'r) io) \<Rightarrow> ('b, 'r) io" where
  "bnd m f =
     (\<lambda>w. case m w of
             (Returns x, w1) \<Rightarrow> f x w1
           | (Raises e, w1) \<Rightarrow> (Raises e, w1)
           | (Waits, w1) \<Rightarrow> (Waits, w1))"

definition lift :: "error + 'a \<Rightarrow> ('a, 'r) io" where
  "lift r = (case r of Inl e \<Rightarrow> raise e | Inr x \<Rightarrow> ret x)"

definition bindE :: "error + 'a \<Rightarrow> ('a \<Rightarrow> error + 'b) \<Rightarrow> error + 'b" where
  "bindE r f = (case r of Inl e \<Rightarrow> Inl e | Inr x \<Rightarrow> f x)"

definition slept :: "'r event \<Rightarrow> nat" where
  "slept e = (case e of Sleep d \<Rightarrow> d | _ \<Rightarrow> 0)"

definition emit :: "'r environment \<Rightarrow> 'r event \<Rightarrow> (unit, 'r) io" where
  "emit env e =
     (\<lambda>w. (Returns (), w\<lparr>trace := trace w @ [e], now := now w + slept e + elapsed env e\<rparr>))"

text \<open>\<open>time.time()\<close>.\<close>

definition time :: "(nat, 'r) io" where
  "time = (\<lambda>w. (Returns (now w), w))"

fun for_each :: "'a list \<Rightarrow> ('a \<Rightarrow> (unit, 'r) io) \<Rightarrow> (unit, 'r) io" where
  "for_each [] f = ret ()"
| "for_each (x # xs) f = bnd (f x) (\<lambda>_. for_each xs f)"

definition install_flow_rules :: "'r environment \<Rightarrow> 'r list \<Rightarrow> (bool, 'r) io" where
  "install_flow_rules env rules =
     bnd (emit env (InstallFlowRules rules))
       (\<lambda>_ w. (Returns (install_result env (ninstalls w)), w\<lparr>ninstalls := Suc (ninstalls w)\<rparr>))"

text \<open>The idiom \<^verbatim>\<open>if not install_flow_rules(rules): log.error(msg)\<close> of lines 675, 753 and
  825.\<close>

definition install_or_log :: "'r environment \<Rightarrow> 'r list \<Rightarrow> string \<Rightarrow> (unit, 'r) io" where
  "install_or_log env rules msg =
     bnd (install_flow_rules env rules)
       (\<lambda>ok. if \<not> ok then emit env (LogError msg) else ret ())"

section \<open>\<open>run_experiment\<close>: discovery and convergence (lines 392-464)\<close>

text \<open>\<open>ping_hosts\<close>, the nested function of lines 393-425. The four \<open>setARP\<close> calls made for one
  source host are one \<open>SetARP\<close> event.\<close>

definition ping_hosts ::
  "config \<Rightarrow> 'r environment \<Rightarrow> mininet_experiment \<Rightarrow> node list \<Rightarrow> (unit, 'r) io" where
  "ping_hosts cfg env self hs =
     bnd (if ALL_PAIRS cfg then emit env (PingAll (map node_name hs))
          else bnd (for_each hs
                      (\<lambda>h. case server self of
                              None \<Rightarrow> raise AttributeError
                            | Some s \<Rightarrow> emit env (Ping (node_name h) (h_name s))))
                 (\<lambda>_. if hs = [] then raise ZeroDivisionError else ret ()))
       (\<lambda>_. if ALL_PAIRS cfg then emit env StaticArp
            else (case server self of
                    None \<Rightarrow> raise AttributeError
                  | Some s \<Rightarrow>
                      (case cloud self of
                         None \<Rightarrow> raise AttributeError
                       | Some c \<Rightarrow> for_each hs (\<lambda>src. emit env (SetARP (node_name src))))))"

text \<open>Lines 432-435: what the controller has to report.\<close>

definition expected_counts :: "mininet_experiment \<Rightarrow> node list \<Rightarrow> nat \<times> nat \<times> nat" where
  "expected_counts self hs =
     (let expected_nhosts = length hs;
          expected_nlinks = number_of_edges (topo self) + (if server self \<noteq> None then 1 else 0)
                              + (if cloud self \<noteq> None then 1 else 0);
          expected_nswitches = length (get_switches (topo self))
                              + (if server self \<noteq> None then 1 else 0)
                              + (if cloud self \<noteq> None then 1 else 0)
      in (expected_nhosts, expected_nlinks, expected_nswitches))"

text \<open>The loop condition of line 440, on (hosts, links, switches).\<close>

definition mismatch :: "nat \<times> nat \<times> nat \<Rightarrow> nat \<times> nat \<times> nat \<Rightarrow> bool" where
  "mismatch n_sdn expected =
     (case (n_sdn, expected) of
        ((n_sdn_hosts, n_sdn_links, n_sdn_switches),
         (expected_nhosts, expected_nlinks, expected_nswitches)) \<Rightarrow>
          n_sdn_hosts \<noteq> expected_nhosts \<or> n_sdn_links \<noteq> expected_nlinks
          \<or> n_sdn_switches \<noteq> expected_nswitches)"

text \<open>The body of the loop, lines 441-464, for the view \<open>v\<close> that this iteration's adapter
  reports.\<close>

definition convergence_iteration ::
  "config \<Rightarrow> 'r environment \<Rightarrow> mininet_experiment \<Rightarrow> node list \<Rightarrow> nat \<times> nat \<times> nat
     \<Rightarrow> nat \<times> nat \<times> nat \<Rightarrow> nat \<Rightarrow> (unit, 'r) io" where
  "convergence_iteration cfg env self hs expected v ntries =
     (case (v, expected) of
        ((n_sdn_hosts, n_sdn_links, n_sdn_switches),
         (expected_nhosts, expected_nlinks, expected_nswitches)) \<Rightarrow>
       bnd (emit env (BuildTopologyAdapter n_sdn_hosts n_sdn_links n_sdn_switches)) (\<lambda>_.
       bnd (if n_sdn_hosts \<noteq> expected_nhosts
            then emit env (LogWarning ''topology adapter didn't find all the hosts'')
            else ret ()) (\<lambda>_.
       bnd (if expected_nlinks \<noteq> n_sdn_links
            then emit env (LogWarning ''topology adapter didn't find all the links'')
            else ret ()) (\<lambda>_.
       bnd (if expected_nswitches \<noteq> n_sdn_switches
            then emit env (LogWarning ''topology adapter didn't find all the switches'')
            else ret ()) (\<lambda>_.
       (let success = (n_sdn_hosts = expected_nhosts \<and> expected_nlinks = n_sdn_links
                       \<and> expected_nswitches = n_sdn_switches)
        in bnd (emit env (Sleep (if success then 2 else 10))) (\<lambda>_.
           if ntries mod 5 = 0 \<and> \<not> success
           then bnd (emit env (LogWarning ''pinging hosts again''))
                  (\<lambda>_. ping_hosts cfg env self hs)
           else ret ())))))))"

text \<open>The \<open>while\<close> loop of line 440. It has no bound: when the views run out before one
  matches, the driver is still in the loop.\<close>

fun await_topology ::
  "config \<Rightarrow> 'r environment \<Rightarrow> mininet_experiment \<Rightarrow> node list \<Rightarrow> nat \<times> nat \<times> nat
     \<Rightarrow> (nat \<times> nat \<times> nat) list \<Rightarrow> nat \<times> nat \<times> nat \<Rightarrow> nat \<Rightarrow> (unit, 'r) io" where
  "await_topology cfg env self hs expected [] n_sdn ntries w =
     (if mismatch n_sdn expected then (Waits, w) else (Returns (), w))"
| "await_topology cfg env self hs expected (v # views) n_sdn ntries w =
     (if mismatch n_sdn expected then
        (case convergence_iteration cfg env self hs expected v ntries w of
           (Returns _, w1) \<Rightarrow> await_topology cfg env self hs expected views v (ntries + 1) w1
         | (Raises e, w1) \<Rightarrow> (Raises e, w1)
         | (Waits, w1) \<Rightarrow> (Waits, w1))
      else (Returns (), w))"

section \<open>\<open>setup_traffic_generators\<close> (lines 560-584)\<close>

definition setup_traffic_generators ::
  "config \<Rightarrow> 'r environment \<Rightarrow> mininet_experiment \<Rightarrow> (unit, 'r) io" where
  "setup_traffic_generators cfg env self =
     bnd (lift (get_mininet_nodes self (generators self))) (\<lambda>gens.
       for_each (zip [0..<length gens] gens)
         (\<lambda>(n, g). case server self of
                     None \<Rightarrow> raise AttributeError
                   | Some srv \<Rightarrow>
                       bnd (emit env (IperfClient (node_name g) (IPERF_BASE_PORT cfg + int n)))
                         (\<lambda>_. emit env (IperfServer (h_name srv) (IPERF_BASE_PORT cfg + int n)))))"

section \<open>\<open>setup_seismic_test\<close> (lines 587-926)\<close>

text \<open>
  The forwarding that the method programs and the processes it launches. The command
  lines, the log and output directories and the environment variables are not modelled:
  a launched process is the host it runs on and its role. The evaluation order of the
  source is kept wherever an argument can raise.
\<close>

definition use_unicast :: "mininet_experiment \<Rightarrow> bool" where
  "use_unicast self = (comparison self = Some ''unicast'' \<or> ntrees self = 0)"

text \<open>Lines 665-671: the static route of one subscriber.\<close>

definition unicast_route :: "config \<Rightarrow> mininet_experiment \<Rightarrow> host \<Rightarrow> error + string list" where
  "unicast_route cfg self sub =
     (case get_servers (topo self) of
        [] \<Rightarrow> Inl IndexError
      | original_server_name # _ \<Rightarrow>
          (case get_path (topo self) original_server_name (h_name sub)
                  (Some (DISTANCE_METRIC cfg)) of
             None \<Rightarrow> Inl NetworkXNoPath
           | Some route \<Rightarrow>
               bindE (get_mininet_nodes self route) (\<lambda>nodes.
               bindE (map_result (get_node_dpid self) nodes) (\<lambda>dpids.
               bindE (get_host_dpid self (server self)) (\<lambda>server_dpid.
               Inr (server_dpid # dpids))))))"

text \<open>Lines 659-679.\<close>

definition install_unicast_routes ::
  "config \<Rightarrow> 'r environment \<Rightarrow> mininet_experiment \<Rightarrow> host list \<Rightarrow> (unit, 'r) io" where
  "install_unicast_routes cfg env self subs =
     for_each subs
       (\<lambda>sub. case unicast_route cfg self sub of
                Inl e \<Rightarrow>
                  bnd (emit env (LogError ''Error installing flow rules for static subscriber routes''))
                    (\<lambda>_. raise e)
              | Inr route \<Rightarrow>
                  install_or_log env
                    (build_flow_rules_from_path env route NoMatches
                       (STATIC_PATH_FLOW_RULE_PRIORITY cfg))
                    ''problem installing batch of flow rules for subscriber'')"

text \<open>Lines 714-716: the probe source ports and the arguments that register each DataPath.\<close>

definition probe_src_ports :: "config \<Rightarrow> mininet_experiment \<Rightarrow> int list" where
  "probe_src_ports cfg self =
     py_range2 (PROBE_BASE_SRC_PORT cfg) (PROBE_BASE_SRC_PORT cfg + int (length (cloud_gateways self)))"

definition data_path_args ::
  "config \<Rightarrow> mininet_experiment \<Rightarrow> error + (string \<times> string \<times> string \<times> int) list" where
  "data_path_args cfg self =
     map_result
       (\<lambda>(gw, src_port).
          bindE (get_switch_dpid self gw) (\<lambda>gw_dpid.
          bindE (get_host_dpid self (cloud self)) (\<lambda>cloud_dpid.
          Inr (s_name gw, gw_dpid, cloud_dpid, src_port))))
       (zip (cloud_gateways self) (probe_src_ports cfg self))"

text \<open>Lines 733-738: the route of the probes of one gateway.\<close>

definition probe_route ::
  "config \<Rightarrow> 'r environment \<Rightarrow> mininet_experiment \<Rightarrow> switch \<Rightarrow> error + string list" where
  "probe_route cfg env self gw =
     bindE (get_switch_dpid self gw) (\<lambda>gw_dpid.
     bindE (get_host_dpid self (server self)) (\<lambda>server_dpid.
     (case adapter_get_path env server_dpid gw_dpid (DISTANCE_METRIC cfg) of
        None \<Rightarrow> Inl NetworkXNoPath
      | Some edge_gw_route \<Rightarrow>
          bindE (get_host_dpid self (cloud self)) (\<lambda>cloud_dpid.
          (case adapter_get_path env gw_dpid cloud_dpid (DISTANCE_METRIC cfg) of
             None \<Rightarrow> Inl NetworkXNoPath
           | Some gw_cloud_route \<Rightarrow> Inr (merge_paths env edge_gw_route gw_cloud_route))))))"

text \<open>Lines 741-749: the rules of one probe route, forward and back.\<close>

definition probe_flow_rules :: "config \<Rightarrow> 'r environment \<Rightarrow> string list \<Rightarrow> int \<Rightarrow> 'r list" where
  "probe_flow_rules cfg env route src_port =
     (let dst_port = ECHO_SERVER_PORT cfg;
          frules = build_flow_rules_from_path env route
                     (AddMatches [''udp_src'' \<mapsto> Port src_port, ''udp_dst'' \<mapsto> Port dst_port])
                     (STATIC_PATH_FLOW_RULE_PRIORITY cfg)
      in frules @
         build_flow_rules_from_path env (rev route)
           (AddMatches [''udp_dst'' \<mapsto> Port src_port, ''udp_src'' \<mapsto> Port dst_port])
           (STATIC_PATH_FLOW_RULE_PRIORITY cfg))"

text \<open>Lines 732-754.\<close>

definition install_probe_routes ::
  "config \<Rightarrow> 'r environment \<Rightarrow> mininet_experiment \<Rightarrow> (unit, 'r) io" where
  "install_probe_routes cfg env self =
     for_each (zip (cloud_gateways self) (probe_src_ports cfg self))
       (\<lambda>(gw, src_port).
          bnd (lift (probe_route cfg env self gw)) (\<lambda>route.
          install_or_log env (probe_flow_rules cfg env route src_port)
            ''problem installing batch of flow rules for RideC probes via gateway''))"

text \<open>Lines 815-820: the static route from one gateway to one subscriber.\<close>

definition gateway_route :: "mininet_experiment \<Rightarrow> host \<Rightarrow> switch \<Rightarrow> error + string list" where
  "gateway_route self sub gw =
     (case get_path (topo self) (s_name gw) (h_name sub) None of
        None \<Rightarrow> Inl NetworkXNoPath
      | Some path \<Rightarrow>
          bindE (get_mininet_nodes self path) (\<lambda>nodes.
          bindE (map_result (get_node_dpid self) nodes) (\<lambda>dpids.
          (case cloud_switches self of
             [] \<Rightarrow> Inl IndexError
           | c # _ \<Rightarrow>
               bindE (get_node_dpid self (SwitchNode c)) (\<lambda>cloud_dpid.
               Inr (cloud_dpid # dpids))))))"

text \<open>Lines 809-826.\<close>

definition install_gateway_routes ::
  "config \<Rightarrow> 'r environment \<Rightarrow> mininet_experiment \<Rightarrow> host list \<Rightarrow> (unit, 'r) io" where
  "install_gateway_routes cfg env self subs =
     for_each subs
       (\<lambda>sub. case cloud self of
                None \<Rightarrow> raise AttributeError
              | Some c \<Rightarrow>
                  (let matches = BuiltMatches [''ipv4_dst'' \<mapsto> Addr (h_ip sub),
                                               ''ipv4_src'' \<mapsto> Addr (h_ip c)]
                   in for_each (cloud_gateways self)
                        (\<lambda>gw. bnd (lift (gateway_route self sub gw)) (\<lambda>path.
                              install_or_log env
                                (build_flow_rules_from_path env path matches
                                   (STATIC_PATH_FLOW_RULE_PRIORITY cfg))
                                ''problem installing batch of flow rules for subscriber via gateway''))))"

text \<open>Lines 832-920: one client process per host that is a sensor or a subscriber. The
  source iterates over a Python set; the order taken here is that of first occurrence.\<close>

definition client_role :: "host list \<Rightarrow> host list \<Rightarrow> host \<Rightarrow> string" where
  "client_role sensors subs client =
     (if client \<in> set sensors \<and> client \<in> set subs then ''ps''
      else if client \<in> set sensors then ''p''
      else ''s'')"

definition launch_clients ::
  "'r environment \<Rightarrow> host list \<Rightarrow> host list \<Rightarrow> (unit, 'r) io" where
  "launch_clients env sensors subs =
     for_each (remdups (sensors @ subs))
       (\<lambda>client. bnd time (\<lambda>start_time.
                 emit env (Popen (h_name client) (client_role sensors subs client))))"

definition setup_seismic_test ::
  "config \<Rightarrow> 'r environment \<Rightarrow> mininet_experiment \<Rightarrow> host list \<Rightarrow> host list \<Rightarrow> host option
     \<Rightarrow> (unit, 'r) io" where
  "setup_seismic_test cfg env self sensors subs server_arg =
     (case server_arg of
        None \<Rightarrow> raise AttributeError
      | Some srv \<Rightarrow>
          if h_ip srv = ''127.0.0.1'' then raise AssertionError
          else
            bnd (if use_unicast self then install_unicast_routes cfg env self subs
                 else if comparison self = Some ''oracle'' then raise NotImplementedError
                 else ret ()) (\<lambda>_.
            bnd (if with_ride_d self then lift (get_host_dpid self (server self))
                 else ret []) (\<lambda>_.
            bnd (if with_ride_c self then
                   bnd (lift (data_path_args cfg self)) (\<lambda>_.
                   bnd (lift (get_host_dpid self server_arg)) (\<lambda>_.
                   bnd (lift (get_host_dpid self (cloud self))) (\<lambda>_.
                   install_probe_routes cfg env self)))
                 else ret ()) (\<lambda>_.
            bnd (emit env (Popen (h_name srv) ''srv'')) (\<lambda>_.
            bnd (if with_cloud self then
                   bnd (if with_ride_d self then lift (get_host_dpid self (cloud self))
                        else ret []) (\<lambda>_.
                   (case cloud self of
                      None \<Rightarrow> raise AttributeError
                    | Some c \<Rightarrow> emit env (Popen (h_name c) ''cloud'')))
                 else ret ()) (\<lambda>_.
            bnd (install_gateway_routes cfg env self subs) (\<lambda>_.
            launch_clients env sensors subs)))))))"


section \<open>\<open>run_experiment\<close>: the fault schedule (lines 479-540)\<close>

type_synonym change = "string \<times> string \<times> status \<times> nat"

text \<open>Lines 494-499. The property \<open>data_path_links\<close> is read twice.\<close>

definition plan_data_path_changes :: "config \<Rightarrow> mininet_experiment \<Rightarrow> error + change list" where
  "plan_data_path_changes cfg self =
     bindE (data_path_links self) (\<lambda>dpls.
     (let data_path_changes =
            map (\<lambda>dpl. (fst dpl, snd dpl, Down, TIME_BETWEEN_SEISMIC_EVENTS cfg))
              (drop 1 (sort dpls))
      in bindE (data_path_links self) (\<lambda>dpls2.
         (case sort dpls2 of
            [] \<Rightarrow> Inl IndexError
          | first_dpl # _ \<Rightarrow>
              Inr ((fst first_dpl, snd first_dpl, Down, 0) # data_path_changes
                   @ [(fst first_dpl, snd first_dpl, Up, TIME_BETWEEN_SEISMIC_EVENTS cfg)])))))"

text \<open>Lines 517-528: the earthquake.\<close>

definition apply_failure_model :: "'r environment \<Rightarrow> mininet_experiment \<Rightarrow> (nat, 'r) io" where
  "apply_failure_model env self =
     bnd time (\<lambda>quake_time.
     bnd (for_each (failed_links self)
            (\<lambda>link. emit env (ConfigLinkStatus (fst link) (snd link) Down))) (\<lambda>_.
     bnd (for_each (failed_nodes self) (\<lambda>node. emit env (StopNode (node_name node)))) (\<lambda>_.
     ret quake_time)))"

text \<open>Lines 505-528: the loop over the enumerated changes, with \<open>output_dp_changes\<close> and
  \<open>quake_time\<close> as its state.\<close>

fun apply_data_path_changes ::
  "'r environment \<Rightarrow> mininet_experiment \<Rightarrow> nat \<Rightarrow> change list
     \<Rightarrow> (string \<times> status \<times> nat) list \<times> nat option
     \<Rightarrow> ((string \<times> status \<times> nat) list \<times> nat option, 'r) io" where
  "apply_data_path_changes env self i [] acc = ret acc"
| "apply_data_path_changes env self i ((cloud_gw, cloud_switch, new_status, delay) # rest)
     (output_dp_changes, quake_time) =
     bnd (emit env (Sleep delay)) (\<lambda>_.
     bnd time (\<lambda>dp_change_time.
     bnd (emit env (ConfigLinkStatus cloud_gw cloud_switch new_status)) (\<lambda>_.
     bnd (if i = 1 then bnd (apply_failure_model env self) (\<lambda>t. ret (Some t))
          else ret quake_time) (\<lambda>quake_time1.
     apply_data_path_changes env self (i + 1) rest
       (output_dp_changes @ [(cloud_gw, new_status, dp_change_time)], quake_time1)))))"

record run_result =
  quake_start_time :: "nat option"
  data_path_changes :: "(string \<times> status \<times> nat) list"
  result_publishers :: "string \<Rightarrow> string option"
  result_subscribers :: "string \<Rightarrow> string option"

text \<open>\<open>{h.IP(): h.name for h in hs}\<close>: a later host replaces an earlier one of the same IP.\<close>

definition ip_name_dict :: "host list \<Rightarrow> string \<Rightarrow> string option" where
  "ip_name_dict hs = map_of (rev (map (\<lambda>h. (h_ip h, h_name h)) hs))"

text \<open>Lines 479-540.\<close>

definition failure_model_phase ::
  "config \<Rightarrow> 'r environment \<Rightarrow> mininet_experiment \<Rightarrow> (run_result, 'r) io" where
  "failure_model_phase cfg env self =
     bnd time (\<lambda>exp_start_time.
     bnd (emit env (Sleep (SEISMIC_EVENT_DELAY cfg))) (\<lambda>_.
     bnd (lift (plan_data_path_changes cfg self)) (\<lambda>changes.
     bnd (apply_data_path_changes env self 0 changes ([], None)) (\<lambda>(output_dp_changes, quake_time).
     bnd time (\<lambda>t.
     bnd (if t < exp_start_time + EXPERIMENT_DURATION cfg
          then emit env (Sleep (exp_start_time + EXPERIMENT_DURATION cfg - t))
          else ret ()) (\<lambda>_.
     ret \<lparr>quake_start_time = quake_time, data_path_changes = output_dp_changes,
          result_publishers = ip_name_dict (publishers self),
          result_subscribers = ip_name_dict (subscribers self)\<rparr>))))))"

text \<open>Lines 364-429: the network is started, the server gets its routes and the hosts are
  pinged a first time. The result is \<open>hosts\<close>, the emulated hosts without the NAT.\<close>

definition start_network ::
  "config \<Rightarrow> 'r environment \<Rightarrow> mininet_experiment \<Rightarrow> (node list, 'r) io" where
  "start_network cfg env self =
     bnd (emit env NetStart) (\<lambda>_.
     bnd (emit env (Sleep 5)) (\<lambda>_.
     (case nat_node self of
        None \<Rightarrow> raise AttributeError
      | Some _ \<Rightarrow>
          (case server self of
             None \<Rightarrow> raise AttributeError
           | Some srv \<Rightarrow>
               bnd (emit env SetDefaultRoute) (\<lambda>_.
               bnd (for_each (mcast_address_pool self) (\<lambda>(a, p). emit env (SetHostRoute a))) (\<lambda>_.
               (let hs = filter (\<lambda>h. Some h \<noteq> nat_node self) (net_hosts (net self))
                in bnd (ping_hosts cfg env self hs) (\<lambda>_.
                   bnd (emit env (Sleep 5)) (\<lambda>_.
                   ret hs)))))))))"

text \<open>Lines 364-474: everything before the failure model.\<close>

definition configure_experiment ::
  "config \<Rightarrow> 'r environment \<Rightarrow> mininet_experiment \<Rightarrow> (unit, 'r) io" where
  "configure_experiment cfg env self =
     bnd (start_network cfg env self) (\<lambda>hs.
     bnd (await_topology cfg env self hs (expected_counts self hs)
            (controller_views env) (0, 0, 0) 1) (\<lambda>_.
     bnd (setup_traffic_generators cfg env self) (\<lambda>_.
     setup_seismic_test cfg env self (publishers self) (subscribers self) (server self))))"

text \<open>The whole method, lines 351-540.\<close>

definition run_experiment ::
  "config \<Rightarrow> 'r environment \<Rightarrow> mininet_experiment \<Rightarrow> (run_result, 'r) io" where
  "run_experiment cfg env self =
     bnd (configure_experiment cfg env self) (\<lambda>_. failure_model_phase cfg env self)"


section \<open>A small campus, used to run the definitions\<close>

text \<open>
  One building switch \<open>a1\<close> with two hosts, the server \<open>s0\<close>, two cloud gateways and the
  cloud \<open>x0\<close>. The multicast base address is 224.0.1.100.
\<close>

definition example_config :: config where
  "example_config =
     \<lparr>MULTICAST_ADDRESS_BASE = 3758096740, MULTICAST_ALERT_BASE_SRC_PORT = 4000,
      PROBE_BASE_SRC_PORT = 9900, ECHO_SERVER_PORT = 9999, IPERF_BASE_PORT = 5000,
      STATIC_PATH_FLOW_RULE_PRIORITY = 65000, SEISMIC_EVENT_DELAY = 3,
      TIME_BETWEEN_SEISMIC_EVENTS = 2, EXPERIMENT_DURATION = 30, ALL_PAIRS = False,
      DISTANCE_METRIC = ''latency'',
      get_mac_for_switch = (\<lambda>n is_server is_cloud. ''dpid-'' @ n),
      get_ip_mac_for_host = (\<lambda>n. (''ip-'' @ n, ''mac-'' @ n))\<rparr>"

definition example_topology :: topology where
  "example_topology =
     \<lparr>get_switches = [''a1'', ''g1'', ''g0''],
      get_hosts = [''h1'', ''h2''],
      get_servers = [''s0''],
      get_clouds = [''x0''],
      get_links = [(''h1'', ''a1'', None, None), (''h2'', ''a1'', Some 100, Some 5),
                   (''a1'', ''s0'', None, None), (''s0'', ''g0'', None, None),
                   (''s0'', ''g1'', None, None), (''g0'', ''x0'', None, None),
                   (''g1'', ''x0'', None, None)],
      is_cloud_gateway = (\<lambda>n. n = ''g0'' \<or> n = ''g1''),
      number_of_edges = 7,
      get_path = (\<lambda>a b w.
         if a = ''s0'' \<and> b = ''h1'' then Some [''s0'', ''a1'', ''h1'']
         else if a = ''s0'' \<and> b = ''h2'' then Some [''s0'', ''a1'', ''h2'']
         else if a = ''g0'' \<and> b = ''h1'' then Some [''g0'', ''s0'', ''a1'', ''h1'']
         else if a = ''g0'' \<and> b = ''h2'' then Some [''g0'', ''s0'', ''a1'', ''h2'']
         else if a = ''g1'' \<and> b = ''h1'' then Some [''g1'', ''s0'', ''a1'', ''h1'']
         else if a = ''g1'' \<and> b = ''h2'' then Some [''g1'', ''s0'', ''a1'', ''h2'']
         else None)\<rparr>"

text \<open>The object as the superclass leaves it before \<open>__init__\<close> and \<open>setup_topology\<close> run.\<close>

definition example_self0 :: mininet_experiment where
  "example_self0 =
     \<lparr>comparison = None, ntrees = 2, with_cloud = True, with_ride_c = True, with_ride_d = True,
      topology_adapter_type = ''onos'', mcast_address_pool = [],
      topo = example_topology, net = Mininet, hosts = [], switches = [], cloud_gateways = [],
      cloud_switches = [], links = [], nat_node = None, server_switch = None, server = None,
      cloud = None,
      publishers = [Host ''h1'' ''ip-h1'' ''mac-h1''],
      subscribers = [Host ''h1'' ''ip-h1'' ''mac-h1'', Host ''h2'' ''ip-h2'' ''mac-h2''],
      generators = [''h2''],
      failed_links = [(''a1'', ''h2'')],
      failed_nodes = [SwitchNode (Switch ''a1'' ''dpid-a1'')]\<rparr>"

text \<open>The object once the network of \<open>example_topology\<close> is built.\<close>

definition example_net :: mininet where
  "example_net =
     \<lparr>net_hosts = [HostNode (Host ''h1'' ''ip-h1'' ''mac-h1''),
                   HostNode (Host ''h2'' ''ip-h2'' ''mac-h2''),
                   HostNode (Host ''hs0'' ''ip-hs0'' ''mac-hs0''),
                   HostNode (Host ''hx0'' ''ip-hx0'' ''mac-hx0''),
                   NatNode ''nat0''],
      net_switches = [Switch ''a1'' ''dpid-a1'', Switch ''g1'' ''dpid-g1'', Switch ''g0'' ''dpid-g0'',
                      Switch ''s0'' ''dpid-e0'', Switch ''x0'' ''dpid-f0''],
      net_links = [Link ''s0'' ''hs0'' None, Link ''x0'' ''hx0'' None,
                   Link ''h1'' ''a1'' (Some (10, 10)), Link ''h2'' ''a1'' (Some (100, 5)),
                   Link ''a1'' ''s0'' (Some (10, 10)), Link ''s0'' ''g0'' (Some (10, 10)),
                   Link ''s0'' ''g1'' (Some (10, 10)), Link ''g0'' ''x0'' (Some (10, 10)),
                   Link ''g1'' ''x0'' (Some (10, 10)), Link ''nat0'' ''hs0'' None],
      nameToNode = map_of
        [(''h1'', HostNode (Host ''h1'' ''ip-h1'' ''mac-h1'')),
         (''h2'', HostNode (Host ''h2'' ''ip-h2'' ''mac-h2'')),
         (''hs0'', HostNode (Host ''hs0'' ''ip-hs0'' ''mac-hs0'')),
         (''hx0'', HostNode (Host ''hx0'' ''ip-hx0'' ''mac-hx0'')),
         (''a1'', SwitchNode (Switch ''a1'' ''dpid-a1'')),
         (''g1'', SwitchNode (Switch ''g1'' ''dpid-g1'')),
         (''g0'', SwitchNode (Switch ''g0'' ''dpid-g0'')),
         (''s0'', SwitchNode (Switch ''s0'' ''dpid-e0'')),
         (''x0'', SwitchNode (Switch ''x0'' ''dpid-f0'')),
         (''nat0'', NatNode ''nat0'')],
      nextIP = 6\<rparr>"

definition example_self :: mininet_experiment where
  "example_self =
     example_self0
       \<lparr>net := example_net,
        hosts := [Host ''h1'' ''ip-h1'' ''mac-h1'', Host ''h2'' ''ip-h2'' ''mac-h2''],
        switches := [Switch ''a1'' ''dpid-a1'', Switch ''g1'' ''dpid-g1'', Switch ''g0'' ''dpid-g0''],
        cloud_gateways := [Switch ''g1'' ''dpid-g1'', Switch ''g0'' ''dpid-g0''],
        cloud_switches := [Switch ''x0'' ''dpid-f0''],
        links := [Link ''h1'' ''a1'' (Some (10, 10)), Link ''h2'' ''a1'' (Some (100, 5)),
                  Link ''a1'' ''s0'' (Some (10, 10)), Link ''s0'' ''g0'' (Some (10, 10)),
                  Link ''s0'' ''g1'' (Some (10, 10)), Link ''g0'' ''x0'' (Some (10, 10)),
                  Link ''g1'' ''x0'' (Some (10, 10))],
        nat_node := Some (NatNode ''nat0''),
        server_switch := Some (Switch ''s0'' ''dpid-e0''),
        server := Some (Host ''hs0'' ''ip-hs0'' ''mac-hs0''),
        cloud := Some (Host ''hx0'' ''ip-hx0'' ''mac-hx0'')\<rparr>"

text \<open>An adapter whose rules are readable: one rule per node of the path. The second batch
  installation fails; the controller's view is complete at the third query.\<close>

definition example_env :: "(string \<times> matches \<times> int) environment" where
  "example_env =
     \<lparr>adapter_get_path = (\<lambda>a b w. Some [a, b]),
      merge_paths = (\<lambda>p q. p @ tl q),
      build_flow_rules_from_path = (\<lambda>path m prio. map (\<lambda>d. (d, m, prio)) path),
      install_result = (\<lambda>k. k \<noteq> 1),
      controller_views = [(0, 0, 0), (4, 9, 4), (4, 9, 5)],
      elapsed = (\<lambda>e. 1)\<rparr>"

definition example_world :: "(string \<times> matches \<times> int) world" where
  "example_world = \<lparr>trace = [], now = 0, ninstalls = 0\<rparr>"

text \<open>The object that \<open>setup_topology\<close> builds for \<open>example_topology\<close> when \<open>with_cloud\<close> is
  false: two hosts named \<open>x0\<close>, the second with the automatic address 5, and no cloud
  switch.\<close>

definition example_net_no_cloud :: mininet where
  "example_net_no_cloud =
     \<lparr>net_hosts = [HostNode (Host ''h1'' ''ip-h1'' ''mac-h1''),
                   HostNode (Host ''h2'' ''ip-h2'' ''mac-h2''),
                   HostNode (Host ''hs0'' ''ip-hs0'' ''mac-hs0''),
                   HostNode (Host ''x0'' (auto_ip 4) (auto_mac 4)),
                   HostNode (Host ''x0'' (auto_ip 5) (auto_mac 5)),
                   NatNode ''nat0''],
      net_switches = [Switch ''a1'' ''dpid-a1'', Switch ''g1'' ''dpid-g1'', Switch ''g0'' ''dpid-g0'',
                      Switch ''s0'' ''dpid-e0''],
      net_links = [Link ''s0'' ''hs0'' None,
                   Link ''h1'' ''a1'' (Some (10, 10)), Link ''h2'' ''a1'' (Some (100, 5)),
                   Link ''a1'' ''s0'' (Some (10, 10)), Link ''s0'' ''g0'' (Some (10, 10)),
                   Link ''s0'' ''g1'' (Some (10, 10)), Link ''g0'' ''x0'' (Some (10, 10)),
                   Link ''g1'' ''x0'' (Some (10, 10)), Link ''nat0'' ''hs0'' None],
      nameToNode =
        [''a1'' \<mapsto> SwitchNode (Switch ''a1'' ''dpid-a1''),
         ''g1'' \<mapsto> SwitchNode (Switch ''g1'' ''dpid-g1''),
         ''g0'' \<mapsto> SwitchNode (Switch ''g0'' ''dpid-g0''),
         ''h1'' \<mapsto> HostNode (Host ''h1'' ''ip-h1'' ''mac-h1''),
         ''h2'' \<mapsto> HostNode (Host ''h2'' ''ip-h2'' ''mac-h2''),
         ''s0'' \<mapsto> SwitchNode (Switch ''s0'' ''dpid-e0''),
         ''hs0'' \<mapsto> HostNode (Host ''hs0'' ''ip-hs0'' ''mac-hs0''),
         ''x0'' \<mapsto> HostNode (Host ''x0'' (auto_ip 5) (auto_mac 5)),
         ''nat0'' \<mapsto> NatNode ''nat0''],
      nextIP = 7\<rparr>"

definition example_self_no_cloud :: mininet_experiment where
  "example_self_no_cloud =
     example_self0
       \<lparr>with_cloud := False,
        net := example_net_no_cloud,
        hosts := [Host ''h1'' ''ip-h1'' ''mac-h1'', Host ''h2'' ''ip-h2'' ''mac-h2''],
        switches := [Switch ''a1'' ''dpid-a1'', Switch ''g1'' ''dpid-g1'', Switch ''g0'' ''dpid-g0''],
        cloud_gateways := [Switch ''g1'' ''dpid-g1'', Switch ''g0'' ''dpid-g0''],
        links := [Link ''h1'' ''a1'' (Some (10, 10)), Link ''h2'' ''a1'' (Some (100, 5)),
                  Link ''a1'' ''s0'' (Some (10, 10)), Link ''s0'' ''g0'' (Some (10, 10)),
                  Link ''s0'' ''g1'' (Some (10, 10)), Link ''g0'' ''x0'' (Some (10, 10)),
                  Link ''g1'' ''x0'' (Some (10, 10))],
        nat_node := Some (NatNode ''nat0''),
        server_switch := Some (Switch ''s0'' ''dpid-e0''),
        server := Some (Host ''hs0'' ''ip-hs0'' ''mac-hs0''),
        cloud := Some (Host ''x0'' (auto_ip 5) (auto_mac 5))\<rparr>"

section \<open>Observations on traces\<close>



text \<open>Events that program forwarding or launch a process.\<close>

fun programs_or_launches :: "'r event \<Rightarrow> bool" where
  "programs_or_launches (InstallFlowRules rules) = True"
| "programs_or_launches (Popen h role) = True"
| "programs_or_launches (IperfClient h p) = True"
| "programs_or_launches (IperfServer h p) = True"
| "programs_or_launches e = False"

text \<open>A procedure that only appends events of a given kind to the trace and never turns
  the clock back.\<close>

definition emits :: "('r event \<Rightarrow> bool) \<Rightarrow> ('a, 'r) io \<Rightarrow> bool" where
  "emits P m =
     (\<forall>w. \<exists>es. trace (snd (m w)) = trace w @ es \<and> list_all P es \<and> now w \<le> now (snd (m w)))"

text \<open>Whether a procedure returned, and the exception it raised.\<close>

definition returns :: "'a outcome \<Rightarrow> bool" where
  "returns r = (case r of Returns x \<Rightarrow> True | _ \<Rightarrow> False)"


text \<open>
  The change list as section 4.7 of the specification writes it, for the sorted data-path
  links \<open>dp\<close> and \<open>T = TIME_BETWEEN_SEISMIC_EVENTS\<close>:
  \<open>[(dp[0], down, 0)] + [(dp[i], down, T) for i in 1..n-1] + [(dp[0], up, T)]\<close>.
\<close>

definition spec_change_list :: "nat \<Rightarrow> (string \<times> string) list \<Rightarrow> change list" where
  "spec_change_list T dp =
     [(fst (dp ! 0), snd (dp ! 0), Down, 0)]
     @ map (\<lambda>i. (fst (dp ! i), snd (dp ! i), Down, T)) [1..<length dp]
     @ [(fst (dp ! 0), snd (dp ! 0), Up, T)]"

subsection \<open>The convergence loop\<close>

text \<open>The host-discovery step succeeds exactly when it has what it dereferences: with
  \<open>ALL_PAIRS\<close> unset, a server, a cloud and at least one host.\<close>

definition ping_ok :: "config \<Rightarrow> mininet_experiment \<Rightarrow> node list \<Rightarrow> bool" where
  "ping_ok cfg self hs = (ALL_PAIRS cfg \<or> (server self \<noteq> None \<and> cloud self \<noteq> None \<and> hs \<noteq> []))"

text \<open>The events of one host-discovery step that succeeds (lines 393-425).\<close>

definition ping_events :: "config \<Rightarrow> mininet_experiment \<Rightarrow> node list \<Rightarrow> 'r event list" where
  "ping_events cfg self hs =
     (if ALL_PAIRS cfg then [PingAll (map node_name hs), StaticArp]
      else map (\<lambda>h. Ping (node_name h) (case server self of None \<Rightarrow> [] | Some s \<Rightarrow> h_name s)) hs
           @ map (\<lambda>h. SetARP (node_name h)) hs)"

text \<open>Sleeps and host discovery, the events of the backoff; and the queries of the
  controller's view.\<close>

fun backoff_event :: "'r event \<Rightarrow> bool" where
  "backoff_event (Sleep d) = True"
| "backoff_event (PingAll hs) = True"
| "backoff_event (Ping a b) = True"
| "backoff_event StaticArp = True"
| "backoff_event (SetARP a) = True"
| "backoff_event e = False"

fun is_query :: "'r event \<Rightarrow> bool" where
  "is_query (BuildTopologyAdapter a b c) = True"
| "is_query e = False"

text \<open>
  The backoff as section 4.4 of the specification writes it, over the views that the
  successive iterations see: sleep 2 s on success (the loop ends), 10 s on mismatch, and
  every 5th unsuccessful iteration re-run the discovery \<open>pe\<close>. \<open>u\<close> counts the unsuccessful
  iterations so far.
\<close>

fun spec_backoff :: "'r event list \<Rightarrow> nat \<times> nat \<times> nat \<Rightarrow> nat \<Rightarrow> (nat \<times> nat \<times> nat) list \<Rightarrow> 'r event list" where
  "spec_backoff pe expected u [] = []"
| "spec_backoff pe expected u (v # views) =
     (if v = expected then [Sleep 2]
      else Sleep 10 # (if (u + 1) mod 5 = 0 then pe else [])
           @ spec_backoff pe expected (u + 1) views)"

section \<open>Properties of the constructor\<close>

subsection \<open>Comprehensions that may raise\<close>

lemma map_result_all:
  "(\<And>x. x \<in> set xs \<Longrightarrow> f x = Inr (g x)) \<Longrightarrow> map_result f xs = Inr (map g xs)"
  by (induction xs) auto

lemma map_result_fails:
  "\<exists>x\<in>set xs. f x = Inl e \<Longrightarrow> (\<And>x e'. x \<in> set xs \<Longrightarrow> f x = Inl e' \<Longrightarrow> e' = e)
     \<Longrightarrow> map_result f xs = Inl e"
proof (induction xs)
  case Nil
  then show ?case by simp
next
  case (Cons a xs)
  show ?case
  proof (cases "f a")
    case (Inl e')
    then have "e' = e" using Cons.prems(2)[of a e'] by simp
    with Inl show ?thesis by simp
  next
    case (Inr y)
    then have ex: "\<exists>x\<in>set xs. f x = Inl e" using Cons.prems(1) by auto
    have "map_result f xs = Inl e"
      by (rule Cons.IH[OF ex]) (use Cons.prems(2) in auto)
    with Inr show ?thesis by simp
  qed
qed

subsection \<open>The dotted quad of an address determines the address\<close>

lemma digit_char_inj: "d < 10 \<Longrightarrow> d' < 10 \<Longrightarrow> digit_char d = digit_char d' \<Longrightarrow> d = d'"
proof -
  assume a: "d < 10" "d' < 10" "digit_char d = digit_char d'"
  then have "(of_char (digit_char d) :: nat) = of_char (digit_char d')" by simp
  then show ?thesis using a by (simp add: digit_char_def)
qed

lemma digit_char_not_dot: "d < 10 \<Longrightarrow> digit_char d \<noteq> CHR ''.''"
proof
  assume a: "d < 10" "digit_char d = CHR ''.''"
  then have "(of_char (digit_char d) :: nat) = of_char (CHR ''.'')" by simp
  then show False using a by (simp add: digit_char_def)
qed

lemma str_nat_nonempty: "str_nat n \<noteq> []"
  by (subst str_nat.simps) simp

lemma str_nat_no_dot: "CHR ''.'' \<notin> set (str_nat n)"
proof (induction n rule: str_nat.induct)
  case (1 n)
  show ?case
  proof (cases "n < 10")
    case True
    then show ?thesis using digit_char_not_dot[of n] by (subst str_nat.simps) auto
  next
    case False
    have "n mod 10 < 10" by simp
    then have "digit_char (n mod 10) \<noteq> CHR ''.''" by (rule digit_char_not_dot)
    with False 1 show ?thesis by (subst str_nat.simps) auto
  qed
qed

lemma str_nat_inj: "str_nat n = str_nat m \<Longrightarrow> n = m"
proof (induction n arbitrary: m rule: str_nat.induct)
  case (1 n)
  show ?case
  proof (cases "n < 10")
    case n: True
    show ?thesis
    proof (cases "m < 10")
      case True
      with n 1(2) show ?thesis
        by (subst (asm) str_nat.simps, subst (asm) (2) str_nat.simps) (auto dest: digit_char_inj)
    next
      case False
      have "length (str_nat m) \<ge> 2"
        using False str_nat_nonempty[of "m div 10"]
        by (subst str_nat.simps) (cases "str_nat (m div 10)"; simp)
      moreover have "length (str_nat n) = 1" using n by (subst str_nat.simps) simp
      ultimately show ?thesis using 1(2) by simp
    qed
  next
    case n: False
    show ?thesis
    proof (cases "m < 10")
      case True
      have "length (str_nat n) \<ge> 2"
        using n str_nat_nonempty[of "n div 10"]
        by (subst str_nat.simps) (cases "str_nat (n div 10)"; simp)
      moreover have "length (str_nat m) = 1" using True by (subst str_nat.simps) simp
      ultimately show ?thesis using 1(2) by simp
    next
      case False
      have e: "str_nat (n div 10) @ [digit_char (n mod 10)] = str_nat (m div 10) @ [digit_char (m mod 10)]"
        using 1(2) n False by (subst (asm) str_nat.simps, subst (asm) (2) str_nat.simps) simp
      then have a: "str_nat (n div 10) = str_nat (m div 10)"
        and b: "digit_char (n mod 10) = digit_char (m mod 10)" by auto
      from 1(1)[OF n a] have "n div 10 = m div 10" .
      moreover from b have "n mod 10 = m mod 10" using digit_char_inj[of "n mod 10" "m mod 10"] by simp
      ultimately show ?thesis by (metis div_mult_mod_eq)
    qed
  qed
qed

lemma split_at_unique:
  "c \<notin> set a \<Longrightarrow> c \<notin> set a' \<Longrightarrow> a @ c # r = a' @ c # r' \<Longrightarrow> a = a' \<and> r = r'"
proof (induction a arbitrary: a')
  case Nil
  then show ?case by (cases a') auto
next
  case (Cons x a)
  then show ?case by (cases a') auto
qed

lemma ipv4_str_octets:
  assumes "ipv4_str a = ipv4_str b"
  shows "octet a 3 = octet b 3 \<and> octet a 2 = octet b 2 \<and> octet a 1 = octet b 1 \<and> octet a 0 = octet b 0"
proof -
  have e: "str_nat (octet a 3) @ CHR ''.'' # (str_nat (octet a 2) @ CHR ''.'' # (str_nat (octet a 1) @ CHR ''.'' # str_nat (octet a 0)))
         = str_nat (octet b 3) @ CHR ''.'' # (str_nat (octet b 2) @ CHR ''.'' # (str_nat (octet b 1) @ CHR ''.'' # str_nat (octet b 0)))"
    using assms by (simp add: ipv4_str_def)
  from split_at_unique[OF str_nat_no_dot str_nat_no_dot e]
  have e3: "str_nat (octet a 3) = str_nat (octet b 3)"
    and r3: "str_nat (octet a 2) @ CHR ''.'' # (str_nat (octet a 1) @ CHR ''.'' # str_nat (octet a 0))
           = str_nat (octet b 2) @ CHR ''.'' # (str_nat (octet b 1) @ CHR ''.'' # str_nat (octet b 0))"
    by auto
  from split_at_unique[OF str_nat_no_dot str_nat_no_dot r3]
  have e2: "str_nat (octet a 2) = str_nat (octet b 2)"
    and r2: "str_nat (octet a 1) @ CHR ''.'' # str_nat (octet a 0)
           = str_nat (octet b 1) @ CHR ''.'' # str_nat (octet b 0)"
    by auto
  from split_at_unique[OF str_nat_no_dot str_nat_no_dot r2]
  have e1: "str_nat (octet a 1) = str_nat (octet b 1)"
    and e0: "str_nat (octet a 0) = str_nat (octet b 0)"
    by auto
  from e3 e2 e1 e0 show ?thesis by (auto dest: str_nat_inj)
qed

lemma octet_eq: "octet a k = octet b k \<Longrightarrow> (a div 256 ^ k) mod 256 = (b div 256 ^ k) mod 256"
  unfolding octet_def by (rule eq_nat_nat_iff[THEN iffD1]) simp_all

lemma int_div_mod_256: "(x::int) div 256 = y div 256 \<Longrightarrow> x mod 256 = y mod 256 \<Longrightarrow> x = y"
  by (metis mult_div_mod_eq)

lemma top_octet: "0 \<le> a \<Longrightarrow> a < 4294967296 \<Longrightarrow> (a div 16777216) mod 256 = (a::int) div 16777216"
proof -
  assume a: "0 \<le> a" "a < 4294967296"
  have "a div 16777216 \<le> 4294967295 div 16777216" by (rule zdiv_mono1) (use a in simp_all)
  then have u: "a div 16777216 < 256" by simp
  have l: "0 \<le> a div 16777216" using a(1) by (simp add: pos_imp_zdiv_nonneg_iff)
  show ?thesis by (rule mod_pos_pos_trivial[OF l u])
qed

lemma div_256_twice: "(x::int) div 256 div 256 = x div 65536"
  and div_65536_256: "(x::int) div 65536 div 256 = x div 16777216"
proof -
  have "x div (256 * 256) = x div 256 div 256" by (rule zdiv_zmult2_eq) simp
  then show "x div 256 div 256 = x div 65536" by simp
  have "x div (65536 * 256) = x div 65536 div 256" by (rule zdiv_zmult2_eq) simp
  then show "x div 65536 div 256 = x div 16777216" by simp
qed

lemma octets_determine:
  assumes a: "0 \<le> a" "a < 4294967296" and b: "0 \<le> b" "b < 4294967296"
    and o: "octet a 3 = octet b 3" "octet a 2 = octet b 2" "octet a 1 = octet b 1" "octet a 0 = octet b 0"
  shows "a = b"
proof -
  have p: "(256::int) ^ 0 = 1" "(256::int) ^ 1 = 256" "(256::int) ^ 2 = 65536" "(256::int) ^ 3 = 16777216"
    by simp_all
  have m0: "a mod 256 = b mod 256" using octet_eq[OF o(4)] unfolding p div_by_1 .
  have m1: "(a div 256) mod 256 = (b div 256) mod 256" using octet_eq[OF o(3)] unfolding p .
  have m2: "(a div 65536) mod 256 = (b div 65536) mod 256" using octet_eq[OF o(2)] unfolding p .
  have m3: "(a div 16777216) mod 256 = (b div 16777216) mod 256" using octet_eq[OF o(1)] unfolding p .
  have d3: "a div 16777216 = b div 16777216"
    using m3 unfolding top_octet[OF a] top_octet[OF b] .
  have d2: "a div 65536 = b div 65536"
  proof (rule int_div_mod_256)
    show "a div 65536 div 256 = b div 65536 div 256" unfolding div_65536_256 by (rule d3)
    show "a div 65536 mod 256 = b div 65536 mod 256" by (rule m2)
  qed
  have d1: "a div 256 = b div 256"
  proof (rule int_div_mod_256)
    show "a div 256 div 256 = b div 256 div 256" unfolding div_256_twice by (rule d2)
    show "a div 256 mod 256 = b div 256 mod 256" by (rule m1)
  qed
  show ?thesis by (rule int_div_mod_256[OF d1 m0])
qed
lemma ipv4_str_inj:
  "0 \<le> a \<Longrightarrow> a < 4294967296 \<Longrightarrow> 0 \<le> b \<Longrightarrow> b < 4294967296 \<Longrightarrow> ipv4_str a = ipv4_str b \<Longrightarrow> a = b"
  using ipv4_str_octets[of a b] octets_determine[of a b] by blast


subsection \<open>The multicast address pool\<close>

lemma py_range_set: "i \<in> set (py_range n) \<longleftrightarrow> 0 \<le> i \<and> i < n"
proof
  assume "i \<in> set (py_range n)"
  then obtain k where "k < nat n" "i = int k" by (auto simp: py_range_def)
  then show "0 \<le> i \<and> i < n" by auto
next
  assume a: "0 \<le> i \<and> i < n"
  then have "nat i < nat n" "i = int (nat i)" by auto
  then show "i \<in> set (py_range n)"
    unfolding py_range_def by (metis atLeast0LessThan imageI lessThan_iff set_map set_upt)
qed

lemma py_range_distinct: "distinct (py_range n)"
  by (simp add: py_range_def distinct_map inj_on_def)

lemma py_range_length: "length (py_range n) = nat n"
  by (simp add: py_range_def)

lemma py_range_nth: "i < nat n \<Longrightarrow> py_range n ! i = int i"
  by (simp add: py_range_def)

lemma IPv4Address_valid: "0 \<le> a \<Longrightarrow> a < 4294967296 \<Longrightarrow> IPv4Address a = Inr a"
  by (simp add: IPv4Address_def)

lemma pool_in_range:
  assumes "0 \<le> MULTICAST_ADDRESS_BASE cfg" "MULTICAST_ADDRESS_BASE cfg < 4294967296"
    and "MULTICAST_ADDRESS_BASE cfg + n \<le> 4294967296"
  shows "build_mcast_address_pool cfg n =
           Inr (map (\<lambda>i. (ipv4_str (MULTICAST_ADDRESS_BASE cfg + i), MULTICAST_ALERT_BASE_SRC_PORT cfg + i))
                  (py_range n))"
proof -
  have "map_result
          (\<lambda>i. case IPv4Address (MULTICAST_ADDRESS_BASE cfg + i) of
                  Inl e \<Rightarrow> Inl e
                | Inr a \<Rightarrow> Inr (ipv4_str a, MULTICAST_ALERT_BASE_SRC_PORT cfg + i))
          (py_range n)
        = Inr (map (\<lambda>i. (ipv4_str (MULTICAST_ADDRESS_BASE cfg + i), MULTICAST_ALERT_BASE_SRC_PORT cfg + i))
                 (py_range n))"
  proof (rule map_result_all)
    fix i assume "i \<in> set (py_range n)"
    then have "0 \<le> i" "i < n" by (simp_all add: py_range_set)
    with assms have "IPv4Address (MULTICAST_ADDRESS_BASE cfg + i) = Inr (MULTICAST_ADDRESS_BASE cfg + i)"
      by (intro IPv4Address_valid) auto
    then show "(case IPv4Address (MULTICAST_ADDRESS_BASE cfg + i) of
                  Inl e \<Rightarrow> Inl e
                | Inr a \<Rightarrow> Inr (ipv4_str a, MULTICAST_ALERT_BASE_SRC_PORT cfg + i))
               = Inr (ipv4_str (MULTICAST_ADDRESS_BASE cfg + i), MULTICAST_ALERT_BASE_SRC_PORT cfg + i)"
      by simp
  qed
  then show ?thesis
    using assms by (simp add: build_mcast_address_pool_def IPv4Address_valid)
qed

lemma pool_overflow:
  assumes "0 \<le> MULTICAST_ADDRESS_BASE cfg" "MULTICAST_ADDRESS_BASE cfg < 4294967296"
    and "4294967296 < MULTICAST_ADDRESS_BASE cfg + n"
  shows "build_mcast_address_pool cfg n = Inl AddressValueError"
proof -
  let ?f = "\<lambda>i. case IPv4Address (MULTICAST_ADDRESS_BASE cfg + i) of
                  Inl e \<Rightarrow> Inl e
                | Inr a \<Rightarrow> Inr (ipv4_str a, MULTICAST_ALERT_BASE_SRC_PORT cfg + i)"
  have "n - 1 \<in> set (py_range n)" using assms by (simp add: py_range_set)
  moreover have "?f (n - 1) = Inl AddressValueError"
    using assms by (simp add: IPv4Address_def)
  ultimately have ex: "\<exists>x\<in>set (py_range n). ?f x = Inl AddressValueError" by blast
  have "map_result ?f (py_range n) = Inl AddressValueError"
    by (rule map_result_fails[OF ex]) (auto simp: IPv4Address_def split: if_splits)
  then show ?thesis
    using assms by (simp add: build_mcast_address_pool_def IPv4Address_valid)
qed

lemma pool_distinct:
  assumes "0 \<le> b" "b + n \<le> 4294967296"
  shows "distinct (map (\<lambda>i. ipv4_str (b + i)) (py_range n))"
    and "distinct (map (\<lambda>i. (p::int) + i) (py_range n))"
proof -
  have "inj_on (\<lambda>i. ipv4_str (b + i)) (set (py_range n))"
  proof (rule inj_onI)
    fix x y assume "x \<in> set (py_range n)" "y \<in> set (py_range n)"
      and e: "ipv4_str (b + x) = ipv4_str (b + y)"
    then have "0 \<le> x" "x < n" "0 \<le> y" "y < n" by (simp_all add: py_range_set)
    with assms have "b + x = b + y" by (intro ipv4_str_inj[OF _ _ _ _ e]) auto
    then show "x = y" by simp
  qed
  then show "distinct (map (\<lambda>i. ipv4_str (b + i)) (py_range n))"
    by (simp add: distinct_map py_range_distinct)
  show "distinct (map (\<lambda>i. p + i) (py_range n))"
    by (simp add: distinct_map py_range_distinct inj_on_def)
qed

text \<open>
  Claim C5, as amended. The constructor builds the pool of length \<open>ntrees\<close> whose \<open>i\<close>-th
  entry is the base address plus \<open>i\<close> (as a dotted quad) with the base alert source port
  plus \<open>i\<close>, and the addresses and the ports of the pool are pairwise distinct, for every
  \<open>ntrees \<ge> 0\<close> that keeps every address below \<open>2 ^ 32\<close>; for a larger \<open>ntrees\<close> the
  \<open>ipaddress\<close> module raises \<open>AddressValueError\<close> and no pool is built.
\<close>

theorem mcast_address_pool_init:
  assumes "check_comparison cmp = Inr ()"
    and "0 \<le> MULTICAST_ADDRESS_BASE cfg" and "MULTICAST_ADDRESS_BASE cfg < 4294967296"
    and "0 \<le> n"
  shows "(MULTICAST_ADDRESS_BASE cfg + n \<le> 4294967296 \<longrightarrow>
            (\<exists>self'. init cfg cmp (Some n) self = Inr self'
               \<and> length (mcast_address_pool self') = nat n
               \<and> (\<forall>i<nat n. mcast_address_pool self' ! i =
                     (ipv4_str (MULTICAST_ADDRESS_BASE cfg + int i),
                      MULTICAST_ALERT_BASE_SRC_PORT cfg + int i))
               \<and> distinct (map fst (mcast_address_pool self'))
               \<and> distinct (map snd (mcast_address_pool self'))))
       \<and> (4294967296 < MULTICAST_ADDRESS_BASE cfg + n \<longrightarrow>
            init cfg cmp (Some n) self = Inl AddressValueError)"
proof (intro conjI impI)
  assume le: "MULTICAST_ADDRESS_BASE cfg + n \<le> 4294967296"
  let ?pool = "map (\<lambda>i. (ipv4_str (MULTICAST_ADDRESS_BASE cfg + i), MULTICAST_ALERT_BASE_SRC_PORT cfg + i))
                 (py_range n)"
  have p: "build_mcast_address_pool cfg n = Inr ?pool"
    using assms le by (intro pool_in_range)
  have d1: "distinct (map fst ?pool)"
    using pool_distinct(1)[OF assms(2) le] by (simp add: comp_def)
  have d2: "distinct (map snd ?pool)"
    using pool_distinct(2)[OF assms(2) le] by (simp add: comp_def)
  have n: "\<forall>i<nat n. ?pool ! i =
             (ipv4_str (MULTICAST_ADDRESS_BASE cfg + int i), MULTICAST_ALERT_BASE_SRC_PORT cfg + int i)"
    by (simp add: py_range_length py_range_nth)
  show "\<exists>self'. init cfg cmp (Some n) self = Inr self'
               \<and> length (mcast_address_pool self') = nat n
               \<and> (\<forall>i<nat n. mcast_address_pool self' ! i =
                     (ipv4_str (MULTICAST_ADDRESS_BASE cfg + int i),
                      MULTICAST_ALERT_BASE_SRC_PORT cfg + int i))
               \<and> distinct (map fst (mcast_address_pool self'))
               \<and> distinct (map snd (mcast_address_pool self'))"
    using assms(1) p d1 d2 n by (simp add: init_def py_range_length)
next
  assume "4294967296 < MULTICAST_ADDRESS_BASE cfg + n"
  then have "build_mcast_address_pool cfg n = Inl AddressValueError"
    using assms by (intro pool_overflow)
  then show "init cfg cmp (Some n) self = Inl AddressValueError"
    using assms(1) by (simp add: init_def)
qed

theorem mcast_address_pool_init_witness:
  "\<exists>self'. init example_config (Some ''unicast'') (Some 2) example_self0 = Inr self'
       \<and> length (mcast_address_pool self') = 2
       \<and> mcast_address_pool self' ! 1 = (''224.0.1.101'', 4001)
       \<and> distinct (map fst (mcast_address_pool self'))"
proof -
  have s: "ipv4_str 3758096741 = ''224.0.1.101''" by code_simp
  have "\<exists>self'. init example_config (Some ''unicast'') (Some 2) example_self0 = Inr self'
               \<and> length (mcast_address_pool self') = nat 2
               \<and> (\<forall>i<nat 2. mcast_address_pool self' ! i =
                     (ipv4_str (MULTICAST_ADDRESS_BASE example_config + int i),
                      MULTICAST_ALERT_BASE_SRC_PORT example_config + int i))
               \<and> distinct (map fst (mcast_address_pool self'))
               \<and> distinct (map snd (mcast_address_pool self'))"
    using mcast_address_pool_init[of "Some ''unicast''" example_config 2 example_self0]
    by (simp add: check_comparison_def example_config_def)
  then obtain self' where i: "init example_config (Some ''unicast'') (Some 2) example_self0 = Inr self'"
    and l: "length (mcast_address_pool self') = nat 2"
    and n: "\<forall>i<nat 2. mcast_address_pool self' ! i =
                     (ipv4_str (MULTICAST_ADDRESS_BASE example_config + int i),
                      MULTICAST_ALERT_BASE_SRC_PORT example_config + int i)"
    and d: "distinct (map fst (mcast_address_pool self'))"
    by blast
  from n have "mcast_address_pool self' ! 1 =
                 (ipv4_str (MULTICAST_ADDRESS_BASE example_config + int 1),
                  MULTICAST_ALERT_BASE_SRC_PORT example_config + int 1)"
    by simp
  then have "mcast_address_pool self' ! 1 = (''224.0.1.101'', 4001)"
    using s by (simp add: example_config_def)
  with i l d show ?thesis by auto
qed

text \<open>The claim as stated, for every \<open>ntrees \<ge> 0\<close>, fails at the base address 224.0.1.100
  with 536870557 trees: the last address would be \<open>2 ^ 32\<close>.\<close>

theorem mcast_address_pool_every_ntrees_counterexample:
  "init example_config None (Some 536870557) example_self0 = Inl AddressValueError"
proof -
  have "build_mcast_address_pool example_config 536870557 = Inl AddressValueError"
    by (rule pool_overflow) (simp_all add: example_config_def)
  then show ?thesis by (simp add: init_def check_comparison_def)
qed

section \<open>Reasoning about procedures\<close>

lemma ret_apply: "ret x w = (Returns x, w)"
  by (simp add: ret_def)

lemma raise_apply: "raise e w = (Raises e, w)"
  by (simp add: raise_def)

lemma bnd_ret [simp]: "bnd (ret x) f = f x"
  by (simp add: bnd_def ret_def)

lemma bnd_raise [simp]: "bnd (raise e) f = raise e"
  by (simp add: bnd_def raise_def)

lemma lift_simps [simp]: "lift (Inr x) = ret x" "lift (Inl e) = raise e"
  by (simp_all add: lift_def)

lemma bindE_simps [simp]: "bindE (Inr x) f = f x" "bindE (Inl e) f = Inl e"
  by (simp_all add: bindE_def)

lemma emit_apply:
  "emit env e w = (Returns (), w\<lparr>trace := trace w @ [e], now := now w + slept e + elapsed env e\<rparr>)"
  by (simp add: emit_def)

lemma bnd_emit:
  "bnd (emit env e) f w = f () (w\<lparr>trace := trace w @ [e], now := now w + slept e + elapsed env e\<rparr>)"
  by (simp add: bnd_def emit_def)

lemma bnd_time: "bnd time f w = f (now w) w"
  by (simp add: bnd_def time_def)

lemma bnd_cases:
  obtains (Returns) x w1 where "m w = (Returns x, w1)" "bnd m f w = f x w1"
  | (Raises) e w1 where "m w = (Raises e, w1)" "bnd m f w = (Raises e, w1)"
  | (Waits) w1 where "m w = (Waits, w1)" "bnd m f w = (Waits, w1)"
proof (cases "m w")
  case (Pair r w1)
  then show ?thesis by (cases r) (auto simp: bnd_def intro: that)
qed

lemma bnd_ReturnsD:
  "bnd m f w = (Returns r, w') \<Longrightarrow> \<exists>x w1. m w = (Returns x, w1) \<and> f x w1 = (Returns r, w')"
  by (cases rule: bnd_cases[of m w f]) auto

lemma emits_ret [intro!]: "emits P (ret x)"
  by (simp add: emits_def ret_def)

lemma emits_raise [intro!]: "emits P (raise e)"
  by (simp add: emits_def raise_def)

lemma emits_lift [intro!]: "emits P (lift r)"
  by (cases r) auto

lemma emits_time [intro!]: "emits P time"
  by (simp add: emits_def time_def)

lemma emits_emit [intro!]: "P e \<Longrightarrow> emits P (emit env e)"
  by (simp add: emits_def emit_def)

lemma emits_bnd [intro!]:
  assumes "emits P m" and "\<And>x. emits P (f x)"
  shows "emits P (bnd m f)"
  unfolding emits_def
proof
  fix w
  from assms(1) obtain es where m: "trace (snd (m w)) = trace w @ es" "list_all P es" "now w \<le> now (snd (m w))"
    unfolding emits_def by blast
  show "\<exists>es. trace (snd (bnd m f w)) = trace w @ es \<and> list_all P es \<and> now w \<le> now (snd (bnd m f w))"
  proof (cases rule: bnd_cases[of m w f])
    case (Returns x w1)
    from assms(2)[of x] obtain es2 where f: "trace (snd (f x w1)) = trace w1 @ es2" "list_all P es2"
        "now w1 \<le> now (snd (f x w1))"
      unfolding emits_def by blast
    from m f Returns show ?thesis by (intro exI[of _ "es @ es2"]) simp
  next
    case (Raises e w1)
    with m show ?thesis by (intro exI[of _ es]) simp
  next
    case (Waits w1)
    with m show ?thesis by (intro exI[of _ es]) simp
  qed
qed

lemma emits_for_each [intro!]:
  "(\<And>x. x \<in> set xs \<Longrightarrow> emits P (f x)) \<Longrightarrow> emits P (for_each xs f)"
  by (induction xs) auto

lemma emits_install [intro!]: "P (InstallFlowRules rules) \<Longrightarrow> emits P (install_flow_rules env rules)"
  unfolding install_flow_rules_def emits_def by (simp add: bnd_emit)

lemma emits_install_or_log [intro!]:
  "P (InstallFlowRules rules) \<Longrightarrow> P (LogError msg) \<Longrightarrow> emits P (install_or_log env rules msg)"
  unfolding install_or_log_def by auto

lemma emits_mono: "emits P m \<Longrightarrow> (\<And>e. P e \<Longrightarrow> Q e) \<Longrightarrow> emits Q m"
  unfolding emits_def by (meson list.pred_mono_strong)

lemma emits_ping_hosts:
  assumes "\<And>a. P (PingAll a)" "\<And>a b. P (Ping a b)" "P StaticArp" "\<And>a. P (SetARP a)"
  shows "emits P (ping_hosts cfg env self hs)"
  unfolding ping_hosts_def using assms by (auto split: option.splits)

lemma emits_convergence_iteration:
  assumes "\<And>a. P (PingAll a)" "\<And>a b. P (Ping a b)" "P StaticArp" "\<And>a. P (SetARP a)"
    "\<And>a b c. P (BuildTopologyAdapter a b c)" "\<And>a. P (LogWarning a)" "\<And>a. P (Sleep a)"
  shows "emits P (convergence_iteration cfg env self hs ex v n)"
  unfolding convergence_iteration_def using assms
  by (auto split: prod.splits intro!: emits_ping_hosts simp: Let_def)

lemma emits_setup_seismic_test: "emits (\<lambda>_. True) (setup_seismic_test cfg env self sensors subs srv)"
  unfolding setup_seismic_test_def install_unicast_routes_def install_probe_routes_def
    install_gateway_routes_def launch_clients_def
  by (auto split: option.splits sum.splits prod.splits simp: Let_def)

section \<open>Running the small campus\<close>

lemmas io_eval = bnd_emit bnd_time ret_apply raise_apply emit_apply install_flow_rules_def
  install_or_log_def bnd_def time_def

lemmas model_defs = start_network_def ping_hosts_def configure_experiment_def run_experiment_def
  expected_counts_def mismatch_def convergence_iteration_def setup_traffic_generators_def
  setup_seismic_test_def use_unicast_def unicast_route_def install_unicast_routes_def
  probe_src_ports_def data_path_args_def probe_route_def probe_flow_rules_def
  install_probe_routes_def gateway_route_def install_gateway_routes_def client_role_def
  launch_clients_def plan_data_path_changes_def apply_failure_model_def failure_model_phase_def
  data_path_links_def get_mininet_nodes_def net_get_def get_host_dpid_def get_switch_dpid_def
  py_range2_def upper_def upper_char_def slept_def ip_name_dict_def

lemmas example_defs = example_config_def example_env_def example_self_def example_self0_def
  example_net_def example_topology_def example_world_def

lemma example_run:
  "case run_experiment example_config example_env example_self example_world of
     (r, w) \<Rightarrow>
       (case r of
          Returns x \<Rightarrow> quake_start_time x = Some 77
            \<and> data_path_changes x = [(''g0'', Down, 72), (''g1'', Down, 76), (''g0'', Up, 82)]
        | _ \<Rightarrow> False)
       \<and> now w = 98 \<and> ninstalls w = 6
       \<and> map (map_event (\<lambda>_. ())) (trace w) =
           [NetStart, Sleep 5, SetDefaultRoute, Ping ''h1'' ''hs0'',
            Ping ''h2'' ''hs0'', Ping ''hs0'' ''hs0'', Ping ''hx0'' ''hs0'',
            SetARP ''h1'', SetARP ''h2'', SetARP ''hs0'', SetARP ''hx0'', Sleep 5,
            BuildTopologyAdapter 0 0 0,
            LogWarning ''topology adapter didn't find all the hosts'',
            LogWarning ''topology adapter didn't find all the links'',
            LogWarning ''topology adapter didn't find all the switches'',
            Sleep 10, BuildTopologyAdapter 4 9 4,
            LogWarning ''topology adapter didn't find all the switches'',
            Sleep 10, BuildTopologyAdapter 4 9 5, Sleep 2, IperfClient ''h2'' 5000,
            IperfServer ''hs0'' 5000, InstallFlowRules [(), (), (), (), (), ()],
            InstallFlowRules [(), (), (), (), (), ()],
            LogError ''problem installing batch of flow rules for RideC probes via gateway'',
            Popen ''hs0'' ''srv'', Popen ''hx0'' ''cloud'',
            InstallFlowRules [(), (), (), (), ()],
            InstallFlowRules [(), (), (), (), ()],
            InstallFlowRules [(), (), (), (), ()],
            InstallFlowRules [(), (), (), (), ()], Popen ''h1'' ''ps'',
            Popen ''h2'' ''s'', Sleep 3, Sleep 0,
            ConfigLinkStatus ''g0'' ''x0'' Down, Sleep 2,
            ConfigLinkStatus ''g1'' ''x0'' Down, ConfigLinkStatus ''a1'' ''h2'' Down,
            StopNode ''a1'', Sleep 2, ConfigLinkStatus ''g0'' ''x0'' Up, Sleep 14]"
  by (simp add: model_defs example_defs io_eval Let_def upt_conv_Cons)




section \<open>The fault schedule\<close>


lemma emitsD:
  "emits P m \<Longrightarrow> \<exists>es. trace (snd (m w)) = trace w @ es \<and> list_all P es \<and> now w \<le> now (snd (m w))"
  unfolding emits_def by blast

lemma for_each_emit:
  "\<exists>w'. for_each xs (\<lambda>x. emit env (g x)) w = (Returns (), w') \<and> trace w' = trace w @ map g xs
        \<and> now w \<le> now w' \<and> ninstalls w' = ninstalls w"
proof (induction xs arbitrary: w)
  case Nil
  then show ?case by (simp add: ret_apply)
next
  case (Cons x xs)
  let ?w1 = "w\<lparr>trace := trace w @ [g x], now := now w + slept (g x) + elapsed env (g x)\<rparr>"
  from Cons[of ?w1] obtain w' where
    "for_each xs (\<lambda>x. emit env (g x)) ?w1 = (Returns (), w')" "trace w' = trace ?w1 @ map g xs"
    "now ?w1 \<le> now w'" "ninstalls w' = ninstalls ?w1" by blast
  then show ?case by (intro exI[of _ w']) (simp add: bnd_emit)
qed

lemma tl_map_nth: "map f (drop 1 xs) = map (\<lambda>i. f (xs ! i)) [1..<length xs]"
proof (cases xs)
  case Nil
  then show ?thesis by simp
next
  case (Cons a rest)
  have "map (\<lambda>i. f ((a # rest) ! i)) [1..<Suc (length rest)] = map (\<lambda>i. f ((a # rest) ! i)) (map Suc [0..<length rest])"
    by (simp only: map_Suc_upt One_nat_def)
  also have "\<dots> = map (\<lambda>i. f (rest ! i)) [0..<length rest]" by (simp add: comp_def)
  also have "\<dots> = map f (map ((!) rest) [0..<length rest])" by (simp only: map_map comp_def)
  also have "\<dots> = map f rest" by (simp only: map_nth)
  finally show ?thesis using Cons by simp
qed

lemma plan_nonempty:
  assumes "data_path_links self = Inr dpl" "dpl \<noteq> []"
  shows "plan_data_path_changes cfg self
           = Inr (spec_change_list (TIME_BETWEEN_SEISMIC_EVENTS cfg) (sort dpl))"
proof -
  from assms(2) have "length (sort dpl) \<noteq> 0" by simp
  then have "sort dpl \<noteq> []" by (simp only: length_0_conv not_False_eq_True)
  then obtain f rest where s: "sort dpl = f # rest" by (cases "sort dpl") auto
  have "map (\<lambda>d. (fst d, snd d, Down, TIME_BETWEEN_SEISMIC_EVENTS cfg)) (drop 1 (sort dpl))
        = map (\<lambda>i. (fst (sort dpl ! i), snd (sort dpl ! i), Down, TIME_BETWEEN_SEISMIC_EVENTS cfg))
            [1..<length (sort dpl)]"
    by (rule tl_map_nth)
  then show ?thesis
    using assms(1) s by (simp add: plan_data_path_changes_def spec_change_list_def Let_def)
qed

lemma plan_InrD:
  assumes "plan_data_path_changes cfg self = Inr changes"
  shows "\<exists>dpl. data_path_links self = Inr dpl \<and> dpl \<noteq> []"
proof (cases "data_path_links self")
  case (Inl e)
  with assms show ?thesis by (simp add: plan_data_path_changes_def)
next
  case (Inr dpl)
  have "dpl \<noteq> []"
  proof
    assume "dpl = []"
    with Inr assms show False by (simp add: plan_data_path_changes_def)
  qed
  with Inr show ?thesis by blast
qed

lemma map_result_Inr_length: "map_result f xs = Inr ys \<Longrightarrow> length ys = length xs"
  by (induction xs arbitrary: ys) (auto split: sum.splits)



lemma apply_failure_model_returns:
  "\<exists>w'. apply_failure_model env self w = (Returns (now w), w') \<and> now w \<le> now w'
        \<and> (\<exists>es. trace w' = trace w @ es)"
proof -
  obtain w1 where 1: "for_each (failed_links self) (\<lambda>link. emit env (ConfigLinkStatus (fst link) (snd link) Down)) w
      = (Returns (), w1)" "now w \<le> now w1" "trace w1 = trace w @ map (\<lambda>link. ConfigLinkStatus (fst link) (snd link) Down) (failed_links self)"
    using for_each_emit[of "failed_links self" env "\<lambda>link. ConfigLinkStatus (fst link) (snd link) Down" w]
    by blast
  obtain w2 where 2: "for_each (failed_nodes self) (\<lambda>node. emit env (StopNode (node_name node))) w1
      = (Returns (), w2)" "now w1 \<le> now w2" "trace w2 = trace w1 @ map (\<lambda>node. StopNode (node_name node)) (failed_nodes self)"
    using for_each_emit[of "failed_nodes self" env "\<lambda>node. StopNode (node_name node)" w1]
    by blast
  have "apply_failure_model env self w = (Returns (now w), w2)"
    unfolding apply_failure_model_def bnd_time
    by (simp add: bnd_def 1(1) 2(1) ret_apply)
  with 1 2 show ?thesis by auto
qed

lemma apply_data_path_changes_spec:
  "\<exists>out q w'. apply_data_path_changes env self i cs (out0, q0) w = (Returns (out0 @ out, q), w')
      \<and> map (\<lambda>(g, s, t). (g, s)) out = map (\<lambda>(g, sw, s, d). (g, s)) cs
      \<and> sorted (map (\<lambda>(g, s, t). t) out)
      \<and> (\<forall>t\<in>set (map (\<lambda>(g, s, t). t) out). now w \<le> t)
      \<and> now w \<le> now w' \<and> (\<exists>es. trace w' = trace w @ es)"
proof (induction cs arbitrary: i out0 q0 w)
  case Nil
  then show ?case by (simp add: ret_apply)
next
  case (Cons c rest)
  obtain g sw st d where c: "c = (g, sw, st, d)" by (cases c) auto
  let ?e1 = "Sleep d :: 'a event"
  let ?w1 = "w\<lparr>trace := trace w @ [?e1], now := now w + slept ?e1 + elapsed env ?e1\<rparr>"
  let ?t = "now ?w1"
  let ?e2 = "ConfigLinkStatus g sw st :: 'a event"
  let ?w2 = "?w1\<lparr>trace := trace ?w1 @ [?e2], now := now ?w1 + slept ?e2 + elapsed env ?e2\<rparr>"
  obtain q1 w3 where fm: "(if i = 1 then bnd (apply_failure_model env self) (\<lambda>t. ret (Some t)) else ret q0) ?w2
       = (Returns q1, w3)" "now ?w2 \<le> now w3" "\<exists>es. trace w3 = trace ?w2 @ es"
  proof (cases "i = 1")
    case True
    from apply_failure_model_returns[of env self ?w2] obtain w' where
      "apply_failure_model env self ?w2 = (Returns (now ?w2), w')" "now ?w2 \<le> now w'"
      "\<exists>es. trace w' = trace ?w2 @ es" by blast
    with True show ?thesis by (intro that[of "Some (now ?w2)" w']) (simp_all add: bnd_def ret_apply)
  next
    case False
    then show ?thesis by (intro that[of q0 ?w2]) (simp_all add: ret_apply)
  qed
  from Cons[of "i + 1" "out0 @ [(g, st, ?t)]" q1 w3] obtain out q w' where
    ih: "apply_data_path_changes env self (i + 1) rest (out0 @ [(g, st, ?t)], q1) w3
           = (Returns ((out0 @ [(g, st, ?t)]) @ out, q), w')"
      "map (\<lambda>(g, s, t). (g, s)) out = map (\<lambda>(g, sw, s, d). (g, s)) rest"
      "sorted (map (\<lambda>(g, s, t). t) out)"
      "\<forall>t\<in>set (map (\<lambda>(g, s, t). t) out). now w3 \<le> t"
      "now w3 \<le> now w'" "\<exists>es. trace w' = trace w3 @ es"
    by blast
  have run: "apply_data_path_changes env self i (c # rest) (out0, q0) w
          = (Returns (out0 @ ((g, st, ?t) # out), q), w')"
  proof (cases "i = 1")
    case True
    with fm(1) have "bnd (apply_failure_model env self) (\<lambda>t. ret (Some t)) ?w2 = (Returns q1, w3)"
      by simp
    then show ?thesis
      using True ih(1) unfolding c by (simp add: bnd_emit bnd_time) (simp add: bnd_def)
  next
    case False
    with fm(1) have "q1 = q0" "w3 = ?w2" by (simp_all add: ret_apply)
    then show ?thesis
      using False ih(1) unfolding c by (simp add: bnd_emit bnd_time)
  qed
  have le: "now w \<le> ?t" "?t \<le> now w3" using fm(2) by simp_all
  have "sorted (map (\<lambda>(g, s, t). t) ((g, st, ?t) # out))"
    using ih(3,4) le by auto
  moreover have "\<forall>t\<in>set (map (\<lambda>(g, s, t). t) ((g, st, ?t) # out)). now w \<le> t"
    using ih(4) le by auto
  moreover have "map (\<lambda>(g, s, t). (g, s)) ((g, st, ?t) # out) = map (\<lambda>(g, sw, s, d). (g, s)) (c # rest)"
    using ih(2) c by simp
  moreover have "now w \<le> now w'" using le ih(5) by simp
  moreover have "\<exists>es. trace w' = trace w @ es"
    using fm(3) ih(6) by auto
  ultimately show ?case using run by blast
qed

lemma failure_model_phase_ReturnsD:
  assumes "fst (failure_model_phase cfg env self w) = Returns r"
  shows "\<exists>changes. plan_data_path_changes cfg self = Inr changes
           \<and> map (\<lambda>(g, s, t). (g, s)) (data_path_changes r) = map (\<lambda>(g, sw, s, d). (g, s)) changes
           \<and> sorted (map (\<lambda>(g, s, t). t) (data_path_changes r))"
proof (cases "plan_data_path_changes cfg self")
  case (Inl e)
  with assms show ?thesis
    by (simp add: failure_model_phase_def bnd_time bnd_emit raise_apply)
next
  case (Inr changes)
  let ?e = "Sleep (SEISMIC_EVENT_DELAY cfg) :: 'a event"
  let ?w1 = "w\<lparr>trace := trace w @ [?e], now := now w + slept ?e + elapsed env ?e\<rparr>"
  from apply_data_path_changes_spec[of env self 0 changes "[]" None ?w1] obtain out q w2 where
    a: "apply_data_path_changes env self 0 changes ([], None) ?w1 = (Returns (out, q), w2)"
      "map (\<lambda>(g, s, t). (g, s)) out = map (\<lambda>(g, sw, s, d). (g, s)) changes"
      "sorted (map (\<lambda>(g, s, t). t) out)"
    by auto
  have "failure_model_phase cfg env self w =
          bnd time (\<lambda>t.
            bnd (if t < now w + EXPERIMENT_DURATION cfg
                 then emit env (Sleep (now w + EXPERIMENT_DURATION cfg - t))
                 else ret ()) (\<lambda>_.
            ret \<lparr>quake_start_time = q, data_path_changes = out,
                 result_publishers = ip_name_dict (publishers self),
                 result_subscribers = ip_name_dict (subscribers self)\<rparr>)) w2"
    unfolding failure_model_phase_def bnd_time bnd_emit Inr lift_simps bnd_ret
    by (simp add: bnd_def a(1))
  then have "fst (failure_model_phase cfg env self w) =
          Returns \<lparr>quake_start_time = q, data_path_changes = out,
                 result_publishers = ip_name_dict (publishers self),
                 result_subscribers = ip_name_dict (subscribers self)\<rparr>"
    by (simp add: bnd_time bnd_emit ret_apply)
  with assms have "data_path_changes r = out" by auto
  with a Inr show ?thesis by auto
qed


lemma run_experiment_ReturnsD:
  assumes "fst (run_experiment cfg env self w) = Returns r"
  shows "\<exists>w1. fst (configure_experiment cfg env self w) = Returns ()
            \<and> w1 = snd (configure_experiment cfg env self w)
            \<and> fst (failure_model_phase cfg env self w1) = Returns r"
  using assms unfolding run_experiment_def
  by (cases rule: bnd_cases[of "configure_experiment cfg env self" w "\<lambda>_. failure_model_phase cfg env self"])
     auto
lemma returnsE: "returns r \<Longrightarrow> \<exists>x. r = Returns x"
  by (cases r) (auto simp: returns_def)



lemma emits_apply_data_path_changes: "emits (\<lambda>_. True) (apply_data_path_changes env self i cs acc)"
  by (induction env self i cs acc rule: apply_data_path_changes.induct)
     (auto simp: apply_failure_model_def)

lemma emits_failure_model_phase: "emits (\<lambda>_. True) (failure_model_phase cfg env self)"
  unfolding failure_model_phase_def
  by (auto intro!: emits_apply_data_path_changes split: prod.splits)



lemma emits_trace: "emits P m \<Longrightarrow> \<exists>es. trace (snd (m w)) = trace w @ es"
  unfolding emits_def by blast



text \<open>
  Claim C1. For non-empty data-path links the planned change list is the list of the
  specification over the links sorted ascending: the first link down at delay 0, every
  other link down at delay \<open>T\<close>, the first link up at delay \<open>T\<close>. The
  \<open>data_path_changes\<close> of a returned result has one entry per planned change, its
  (gateway, status) projection is that of the plan in order, and its timestamps are
  non-decreasing.
\<close>

theorem fault_schedule:
  "(\<forall>dpl. data_path_links self = Inr dpl \<longrightarrow> dpl \<noteq> [] \<longrightarrow>
       plan_data_path_changes cfg self
         = Inr (spec_change_list (TIME_BETWEEN_SEISMIC_EVENTS cfg) (sort dpl)))
   \<and> (\<forall>r. fst (run_experiment cfg env self w) = Returns r \<longrightarrow>
        (\<exists>dpl. data_path_links self = Inr dpl \<and> dpl \<noteq> []
           \<and> length (data_path_changes r)
               = length (spec_change_list (TIME_BETWEEN_SEISMIC_EVENTS cfg) (sort dpl))
           \<and> map (\<lambda>(gw, st, ts). (gw, st)) (data_path_changes r)
               = map (\<lambda>(gw, sw, st, d). (gw, st))
                   (spec_change_list (TIME_BETWEEN_SEISMIC_EVENTS cfg) (sort dpl))
           \<and> sorted (map (\<lambda>(gw, st, ts). ts) (data_path_changes r))))"
proof (intro conjI allI impI)
  fix dpl assume "data_path_links self = Inr dpl" "dpl \<noteq> []"
  then show "plan_data_path_changes cfg self
         = Inr (spec_change_list (TIME_BETWEEN_SEISMIC_EVENTS cfg) (sort dpl))"
    by (rule plan_nonempty)
next
  fix r assume "fst (run_experiment cfg env self w) = Returns r"
  from run_experiment_ReturnsD[OF this] obtain w1 where
    "fst (failure_model_phase cfg env self w1) = Returns r" by blast
  from failure_model_phase_ReturnsD[OF this] obtain changes where
    c: "plan_data_path_changes cfg self = Inr changes"
      "map (\<lambda>(g, s, t). (g, s)) (data_path_changes r) = map (\<lambda>(g, sw, s, d). (g, s)) changes"
      "sorted (map (\<lambda>(g, s, t). t) (data_path_changes r))"
    by blast
  from plan_InrD[OF c(1)] obtain dpl where d: "data_path_links self = Inr dpl" "dpl \<noteq> []" by blast
  from plan_nonempty[OF d, of cfg] c(1)
  have e: "changes = spec_change_list (TIME_BETWEEN_SEISMIC_EVENTS cfg) (sort dpl)" by simp
  from arg_cong[OF c(2), of length] have "length (data_path_changes r) = length changes"
    by simp
  with c d e show "\<exists>dpl. data_path_links self = Inr dpl \<and> dpl \<noteq> []
           \<and> length (data_path_changes r)
               = length (spec_change_list (TIME_BETWEEN_SEISMIC_EVENTS cfg) (sort dpl))
           \<and> map (\<lambda>(gw, st, ts). (gw, st)) (data_path_changes r)
               = map (\<lambda>(gw, sw, st, d). (gw, st))
                   (spec_change_list (TIME_BETWEEN_SEISMIC_EVENTS cfg) (sort dpl))
           \<and> sorted (map (\<lambda>(gw, st, ts). ts) (data_path_changes r))"
    by blast
qed

theorem fault_schedule_witness:
  "plan_data_path_changes example_config example_self
     = Inr [(''g0'', ''x0'', Down, 0), (''g1'', ''x0'', Down, 2), (''g0'', ''x0'', Up, 2)]
   \<and> (\<exists>r. fst (run_experiment example_config example_env example_self example_world) = Returns r
         \<and> map (\<lambda>(gw, st, ts). (gw, st)) (data_path_changes r)
             = [(''g0'', Down), (''g1'', Down), (''g0'', Up)]
         \<and> sorted (map (\<lambda>(gw, st, ts). ts) (data_path_changes r)))"
proof -
  have d: "data_path_links example_self = Inr [(''g1'', ''x0''), (''g0'', ''x0'')]"
    by (simp add: data_path_links_def example_self_def)
  have s: "spec_change_list (TIME_BETWEEN_SEISMIC_EVENTS example_config)
             (sort [(''g1'', ''x0''), (''g0'', ''x0'')])
           = [(''g0'', ''x0'', Down, 0), (''g1'', ''x0'', Down, 2), (''g0'', ''x0'', Up, 2)]"
    by (simp add: spec_change_list_def example_config_def upt_conv_Cons)
  obtain r where
    r: "fst (run_experiment example_config example_env example_self example_world) = Returns r"
    using example_run by (auto split: prod.splits outcome.splits)
  note t = fault_schedule[of example_self example_config example_env example_world]
  from t d have p: "plan_data_path_changes example_config example_self
     = Inr (spec_change_list (TIME_BETWEEN_SEISMIC_EVENTS example_config)
             (sort [(''g1'', ''x0''), (''g0'', ''x0'')]))" by simp
  from t r obtain dpl where "data_path_links example_self = Inr dpl"
    "map (\<lambda>(gw, st, ts). (gw, st)) (data_path_changes r)
       = map (\<lambda>(gw, sw, st, d). (gw, st))
           (spec_change_list (TIME_BETWEEN_SEISMIC_EVENTS example_config) (sort dpl))"
    "sorted (map (\<lambda>(gw, st, ts). ts) (data_path_changes r))" by blast
  with d s have "map (\<lambda>(gw, st, ts). (gw, st)) (data_path_changes r)
             = [(''g0'', Down), (''g1'', Down), (''g0'', Up)]"
    "sorted (map (\<lambda>(gw, st, ts). ts) (data_path_changes r))" by simp_all
  with p s r show ?thesis by auto
qed

section \<open>Phases of a run\<close>

lemma bnd_assoc: "bnd (bnd m f) g = bnd m (\<lambda>x. bnd (f x) g)"
  by (rule ext) (simp add: bnd_def split: prod.splits outcome.splits)




lemma emits_start_network_gen:
  assumes "\<And>a. P (PingAll a)" "\<And>a b. P (Ping a b)" "P StaticArp" "\<And>a. P (SetARP a)"
    "P NetStart" "\<And>a. P (Sleep a)" "P SetDefaultRoute" "\<And>a. P (SetHostRoute a)"
  shows "emits P (start_network cfg env self)"
  unfolding start_network_def using assms
  by (auto split: option.splits prod.splits intro!: emits_ping_hosts simp: Let_def)

lemma emits_await_topology_gen:
  assumes "\<And>a. P (PingAll a)" "\<And>a b. P (Ping a b)" "P StaticArp" "\<And>a. P (SetARP a)"
    "\<And>a b c. P (BuildTopologyAdapter a b c)" "\<And>a. P (LogWarning a)" "\<And>a. P (Sleep a)"
  shows "emits P (await_topology cfg env self hs ex views cur n)"
proof (induction views arbitrary: cur n)
  case Nil
  show ?case by (simp add: emits_def)
next
  case (Cons v views)
  have it: "emits P (convergence_iteration cfg env self hs ex v n)"
    by (rule emits_convergence_iteration) (rule assms)+
  have nxt: "emits P (await_topology cfg env self hs ex views v (n + 1))"
    by (rule Cons)
  have eq: "await_topology cfg env self hs ex (v # views) cur n
          = (if mismatch cur ex
             then bnd (convergence_iteration cfg env self hs ex v n)
                    (\<lambda>_. await_topology cfg env self hs ex views v (n + 1))
             else ret ())"
    by (rule ext) (simp add: bnd_def ret_def split: prod.splits outcome.splits)
  have "emits P (bnd (convergence_iteration cfg env self hs ex v n)
         (\<lambda>_. await_topology cfg env self hs ex views v (n + 1)))"
    by (intro emits_bnd it nxt)
  moreover have "emits P (ret () :: (unit, 'a) io)"
    by (rule emits_ret)
  ultimately show ?case by (simp add: eq del: await_topology.simps)
qed

lemma emits_setup_traffic_generators_gen:
  assumes "\<And>a b. P (IperfClient a b)" "\<And>a b. P (IperfServer a b)"
  shows "emits P (setup_traffic_generators cfg env self)"
  unfolding setup_traffic_generators_def using assms
  by (auto split: option.splits prod.splits)


section \<open>The comparison arms\<close>








































section \<open>Runs without data-path links\<close>

lemmas topology_defs = add_topo_switch_def add_topo_host_def add_server_def
  add_cloud_def add_topo_link_def addHost_def addSwitch_def addLink_def addNAT_def Mininet_def
  net_get_def replace_char_def

lemma example_setup_topology_no_cloud:
  "setup_topology example_config example_topology (example_self0\<lparr>with_cloud := False\<rparr>)
     = Inr example_self_no_cloud"
  unfolding setup_topology_def Let_def
  apply (simp add: example_topology_def)
  apply (simp add: topology_defs example_defs example_self_no_cloud_def example_net_no_cloud_def
      Let_def eval_nat_numeral)
  done













section \<open>The convergence loop\<close>

lemma ping_hosts_spec:
  assumes "ping_ok cfg self hs"
  shows "\<exists>w'. ping_hosts cfg env self hs w = (Returns (), w')
           \<and> trace w' = trace w @ ping_events cfg self hs"
proof (cases "ALL_PAIRS cfg")
  case True
  then show ?thesis by (simp add: ping_hosts_def ping_events_def bnd_emit emit_apply)
next
  case False
  with assms obtain s c where sc: "server self = Some s" "cloud self = Some c" and hs: "hs \<noteq> []"
    by (auto simp: ping_ok_def)
  from for_each_emit[of hs env "\<lambda>h. Ping (node_name h) (h_name s)" w] obtain w1 where
    1: "for_each hs (\<lambda>h. emit env (Ping (node_name h) (h_name s))) w = (Returns (), w1)"
      "trace w1 = trace w @ map (\<lambda>h. Ping (node_name h) (h_name s)) hs" by blast
  from for_each_emit[of hs env "\<lambda>h. SetARP (node_name h)" w1] obtain w2 where
    2: "for_each hs (\<lambda>h. emit env (SetARP (node_name h))) w1 = (Returns (), w2)"
      "trace w2 = trace w1 @ map (\<lambda>h. SetARP (node_name h)) hs" by blast
  have "ping_hosts cfg env self hs w = (Returns (), w2)"
    using False sc hs 1(1) 2(1) by (simp add: ping_hosts_def bnd_def ret_apply)
  with 1(2) 2(2) False sc show ?thesis by (simp add: ping_events_def)
qed

lemma ping_hosts_ReturnsD:
  assumes "ping_hosts cfg env self hs w = (Returns (), w')"
  shows "ping_ok cfg self hs"
proof (rule ccontr)
  assume n: "\<not> ping_ok cfg self hs"
  then have ap: "\<not> ALL_PAIRS cfg" by (simp add: ping_ok_def)
  show False
  proof (cases "server self")
    case None
    show ?thesis
    proof (cases hs)
      case Nil
      with assms ap None show ?thesis by (simp add: ping_hosts_def raise_def bnd_def ret_def)
    next
      case (Cons h rest)
      with assms ap None show ?thesis by (simp add: ping_hosts_def raise_def bnd_def)
    qed
  next
    case (Some s)
    from for_each_emit[of hs env "\<lambda>h. Ping (node_name h) (h_name s)" w] obtain w1 where
      1: "for_each hs (\<lambda>h. emit env (Ping (node_name h) (h_name s))) w = (Returns (), w1)" by blast
    show ?thesis
    proof (cases "hs = []")
      case True
      with assms ap Some show ?thesis by (simp add: ping_hosts_def raise_def bnd_def ret_def)
    next
      case False
      with n ap Some have "cloud self = None" by (simp add: ping_ok_def)
      with assms ap Some False 1 show ?thesis
        by (simp add: ping_hosts_def bnd_def raise_def ret_def)
    qed
  qed
qed

lemma backoff_ping_events: "filter backoff_event (ping_events cfg self hs) = ping_events cfg self hs"
  by (auto simp: ping_events_def filter_id_conv)

lemma query_ping_events: "filter is_query (ping_events cfg self hs) = []"
  by (auto simp: ping_events_def filter_empty_conv)

lemma bnd_emit_trace:
  assumes "\<And>w1. trace w1 = trace w @ [e] \<Longrightarrow> \<exists>w'. f () w1 = (r, w') \<and> trace w' = trace w1 @ es"
  shows "\<exists>w'. bnd (emit env e) f w = (r, w') \<and> trace w' = trace w @ e # es"
proof -
  let ?w1 = "w\<lparr>trace := trace w @ [e], now := now w + slept e + elapsed env e\<rparr>"
  from assms[of ?w1] obtain w' where "f () ?w1 = (r, w')" "trace w' = trace ?w1 @ es" by auto
  then show ?thesis by (intro exI[of _ w']) (simp add: bnd_emit)
qed

lemma bnd_if_emit_trace:
  assumes "\<And>w1. trace w1 = trace w @ (if c then [e] else [])
             \<Longrightarrow> \<exists>w'. f () w1 = (r, w') \<and> trace w' = trace w1 @ es"
  shows "\<exists>w'. bnd (if c then emit env e else ret ()) f w = (r, w')
           \<and> trace w' = trace w @ (if c then [e] else []) @ es"
proof (cases c)
  case True
  with bnd_emit_trace[of w e f r es env] assms show ?thesis by simp
next
  case False
  with assms[of w] show ?thesis by simp
qed

lemma if_trace:
  assumes "c \<Longrightarrow> \<exists>w'. m w = (Returns (), w') \<and> trace w' = trace w @ es"
  shows "\<exists>w'. (if c then m else ret ()) w = (Returns (), w')
           \<and> trace w' = trace w @ (if c then es else [])"
  using assms by (cases c) (simp_all add: ret_apply)

lemma convergence_iteration_spec:
  assumes "ping_ok cfg self hs"
  shows "\<exists>w' es. convergence_iteration cfg env self hs ex v n w = (Returns (), w')
           \<and> trace w' = trace w @ es
           \<and> filter backoff_event es
               = Sleep (if v = ex then 2 else 10)
                 # (if n mod 5 = 0 \<and> v \<noteq> ex then ping_events cfg self hs else [])
           \<and> filter is_query es = [BuildTopologyAdapter (fst v) (fst (snd v)) (snd (snd v))]"
proof -
  obtain a b c where v: "v = (a, b, c)" by (cases v) auto
  obtain ea eb ec where ex: "ex = (ea, eb, ec)" by (cases ex) auto
  let ?success = "a = ea \<and> eb = b \<and> ec = c"
  let ?tail = "if n mod 5 = 0 \<and> \<not> ?success
               then LogWarning ''pinging hosts again'' # ping_events cfg self hs else [] :: 'a event list"
  let ?es = "BuildTopologyAdapter a b c
       # (if a \<noteq> ea then [LogWarning ''topology adapter didn't find all the hosts''] else [])
       @ (if eb \<noteq> b then [LogWarning ''topology adapter didn't find all the links''] else [])
       @ (if ec \<noteq> c then [LogWarning ''topology adapter didn't find all the switches''] else [])
       @ Sleep (if ?success then 2 else 10) # ?tail :: 'a event list"
  have tail: "\<exists>w'. (if n mod 5 = 0 \<and> \<not> ?success
                 then bnd (emit env (LogWarning ''pinging hosts again''))
                        (\<lambda>_. ping_hosts cfg env self hs)
                 else ret ()) w1 = (Returns (), w') \<and> trace w' = trace w1 @ ?tail" for w1
    by (rule if_trace) (rule bnd_emit_trace, rule ping_hosts_spec[OF assms])
  have run: "\<exists>w'. convergence_iteration cfg env self hs ex v n w = (Returns (), w')
           \<and> trace w' = trace w @ ?es"
    apply (simp only: convergence_iteration_def v ex prod.case Let_def)
    apply (intro bnd_emit_trace bnd_if_emit_trace tail)
    done
  then obtain w' where w': "convergence_iteration cfg env self hs ex v n w = (Returns (), w')"
    "trace w' = trace w @ ?es" by blast
  define W :: "'a event list" where "W =
       (if a \<noteq> ea then [LogWarning ''topology adapter didn't find all the hosts''] else [])
       @ (if eb \<noteq> b then [LogWarning ''topology adapter didn't find all the links''] else [])
       @ (if ec \<noteq> c then [LogWarning ''topology adapter didn't find all the switches''] else [])"
  define T :: "'a event list" where "T =
       (if n mod 5 = 0 \<and> v \<noteq> ex
        then LogWarning ''pinging hosts again'' # ping_events cfg self hs else [])"
  have s: "?success \<longleftrightarrow> v = ex" unfolding v ex by auto
  have es: "?es = BuildTopologyAdapter a b c # W @ Sleep (if v = ex then 2 else 10) # T"
    by (simp only: s W_def T_def append_assoc)
  have fW: "filter backoff_event W = []" "filter is_query W = []" by (simp_all add: W_def)
  have fT: "filter backoff_event T = (if n mod 5 = 0 \<and> v \<noteq> ex then ping_events cfg self hs else [])"
    "filter is_query T = []"
    by (simp_all add: T_def backoff_ping_events query_ping_events)
  have q: "BuildTopologyAdapter (fst v) (fst (snd v)) (snd (snd v)) = (BuildTopologyAdapter a b c :: 'a event)"
    by (simp add: v)
  show ?thesis using w'(1) w'(2)[unfolded es]
    by (intro exI[of _ w'] exI[of _ "BuildTopologyAdapter a b c # W @ Sleep (if v = ex then 2 else 10) # T"])
       (simp add: fW fT q)
qed

lemma await_topology_spec:
  assumes "ping_ok cfg self hs" "mismatch cur ex"
  shows "\<exists>w' es. await_topology cfg env self hs ex views cur (Suc u) w
             = (if ex \<in> set views then Returns () else Waits, w')
           \<and> trace w' = trace w @ es
           \<and> filter backoff_event es = spec_backoff (ping_events cfg self hs) ex u views
           \<and> (ex \<in> set views \<longrightarrow>
                 BuildTopologyAdapter (fst ex) (fst (snd ex)) (snd (snd ex)) \<in> set es)
           \<and> (ex \<notin> set views \<longrightarrow> length (filter is_query es) = length views)"
  using assms(2)
proof (induction views arbitrary: cur u w)
  case Nil
  then show ?case by simp
next
  case (Cons v views)
  from convergence_iteration_spec[OF assms(1), of env ex v "Suc u" w] obtain w1 es1 where
    it: "convergence_iteration cfg env self hs ex v (Suc u) w = (Returns (), w1)"
      "trace w1 = trace w @ es1"
      "filter backoff_event es1
         = Sleep (if v = ex then 2 else 10)
           # (if Suc u mod 5 = 0 \<and> v \<noteq> ex then ping_events cfg self hs else [])"
      "filter is_query es1 = [BuildTopologyAdapter (fst v) (fst (snd v)) (snd (snd v))]"
    by blast
  have q: "BuildTopologyAdapter (fst v) (fst (snd v)) (snd (snd v)) \<in> set es1"
  proof -
    have "BuildTopologyAdapter (fst v) (fst (snd v)) (snd (snd v)) \<in> set (filter is_query es1)"
      by (simp only: it(4) list.set_intros)
    then show ?thesis by simp
  qed
  have step: "await_topology cfg env self hs ex (v # views) cur (Suc u) w
          = await_topology cfg env self hs ex views v (Suc (Suc u)) w1"
    using Cons.prems it(1) by simp
  show ?case
  proof (cases "v = ex")
    case True
    then have "\<not> mismatch v ex" by (simp add: mismatch_def split: prod.splits)
    then have "await_topology cfg env self hs ex views v (Suc (Suc u)) w1 = (Returns (), w1)"
      by (cases views) simp_all
    with step True it q show ?thesis by (intro exI[of _ w1] exI[of _ es1]) simp
  next
    case False
    then have m: "mismatch v ex" by (auto simp: mismatch_def split: prod.splits)
    from Cons.IH[OF m, of "Suc u" w1] obtain w' es where
      ih: "await_topology cfg env self hs ex views v (Suc (Suc u)) w1
             = (if ex \<in> set views then Returns () else Waits, w')"
        "trace w' = trace w1 @ es"
        "filter backoff_event es = spec_backoff (ping_events cfg self hs) ex (Suc u) views"
        "ex \<in> set views \<longrightarrow>
                 BuildTopologyAdapter (fst ex) (fst (snd ex)) (snd (snd ex)) \<in> set es"
        "ex \<notin> set views \<longrightarrow> length (filter is_query es) = length views"
      by blast
    from step ih it False show ?thesis
      by (intro exI[of _ w'] exI[of _ "es1 @ es"]) auto
  qed
qed

lemma bnd_emit_ReturnsD:
  "bnd (emit env e) f w = (Returns y, w') \<Longrightarrow> \<exists>w1. f () w1 = (Returns y, w')"
  by (auto simp: bnd_emit)

lemma start_network_ReturnsD:
  assumes "start_network cfg env self w = (Returns hs, w1)"
  shows "hs = filter (\<lambda>h. Some h \<noteq> nat_node self) (net_hosts (net self))
         \<and> server self \<noteq> None \<and> ping_ok cfg self hs"
proof -
  let ?hs = "filter (\<lambda>h. Some h \<noteq> nat_node self) (net_hosts (net self))"
  from assms have "bnd (emit env NetStart) (\<lambda>_.
     bnd (emit env (Sleep 5)) (\<lambda>_.
     (case nat_node self of
        None \<Rightarrow> raise AttributeError
      | Some _ \<Rightarrow>
          (case server self of
             None \<Rightarrow> raise AttributeError
           | Some srv \<Rightarrow>
               bnd (emit env SetDefaultRoute) (\<lambda>_.
               bnd (for_each (mcast_address_pool self) (\<lambda>(a, p). emit env (SetHostRoute a))) (\<lambda>_.
               bnd (ping_hosts cfg env self ?hs) (\<lambda>_.
                   bnd (emit env (Sleep 5)) (\<lambda>_.
                   ret ?hs)))))))) w = (Returns hs, w1)"
    unfolding start_network_def Let_def .
  from bnd_emit_ReturnsD[OF this] obtain wa where
    "bnd (emit env (Sleep 5)) (\<lambda>_.
     (case nat_node self of
        None \<Rightarrow> raise AttributeError
      | Some _ \<Rightarrow>
          (case server self of
             None \<Rightarrow> raise AttributeError
           | Some srv \<Rightarrow>
               bnd (emit env SetDefaultRoute) (\<lambda>_.
               bnd (for_each (mcast_address_pool self) (\<lambda>(a, p). emit env (SetHostRoute a))) (\<lambda>_.
               bnd (ping_hosts cfg env self ?hs) (\<lambda>_.
                   bnd (emit env (Sleep 5)) (\<lambda>_.
                   ret ?hs))))))) wa = (Returns hs, w1)" by blast
  from bnd_emit_ReturnsD[OF this] obtain wb where b:
    "(case nat_node self of
        None \<Rightarrow> raise AttributeError
      | Some _ \<Rightarrow>
          (case server self of
             None \<Rightarrow> raise AttributeError
           | Some srv \<Rightarrow>
               bnd (emit env SetDefaultRoute) (\<lambda>_.
               bnd (for_each (mcast_address_pool self) (\<lambda>(a, p). emit env (SetHostRoute a))) (\<lambda>_.
               bnd (ping_hosts cfg env self ?hs) (\<lambda>_.
                   bnd (emit env (Sleep 5)) (\<lambda>_.
                   ret ?hs)))))) wb = (Returns hs, w1)" by blast
  then obtain n where n: "nat_node self = Some n" by (cases "nat_node self") (auto simp: raise_apply)
  with b obtain s where s: "server self = Some s" by (cases "server self") (auto simp: raise_apply)
  from b n s have "bnd (emit env SetDefaultRoute) (\<lambda>_.
               bnd (for_each (mcast_address_pool self) (\<lambda>(a, p). emit env (SetHostRoute a))) (\<lambda>_.
               bnd (ping_hosts cfg env self ?hs) (\<lambda>_.
                   bnd (emit env (Sleep 5)) (\<lambda>_.
                   ret ?hs)))) wb = (Returns hs, w1)" by simp
  from bnd_emit_ReturnsD[OF this] obtain wc where
    "bnd (for_each (mcast_address_pool self) (\<lambda>(a, p). emit env (SetHostRoute a))) (\<lambda>_.
               bnd (ping_hosts cfg env self ?hs) (\<lambda>_.
                   bnd (emit env (Sleep 5)) (\<lambda>_.
                   ret ?hs))) wc = (Returns hs, w1)" by blast
  from bnd_ReturnsD[OF this] obtain wd where
    "bnd (ping_hosts cfg env self ?hs) (\<lambda>_.
                   bnd (emit env (Sleep 5)) (\<lambda>_.
                   ret ?hs)) wd = (Returns hs, w1)" by blast
  from bnd_ReturnsD[OF this] obtain we where
    e: "ping_hosts cfg env self ?hs wd = (Returns (), we)"
       "bnd (emit env (Sleep 5)) (\<lambda>_. ret ?hs) we = (Returns hs, w1)" by auto
  from e(2) have "hs = ?hs" by (simp add: bnd_emit ret_apply)
  with ping_hosts_ReturnsD[OF e(1)] s show ?thesis by simp
qed

lemma example_start_network_hosts:
  "fst (start_network example_config example_env example_self example_world)
     = Returns [HostNode (Host ''h1'' ''ip-h1'' ''mac-h1''), HostNode (Host ''h2'' ''ip-h2'' ''mac-h2''),
                HostNode (Host ''hs0'' ''ip-hs0'' ''mac-hs0''),
                HostNode (Host ''hx0'' ''ip-hx0'' ''mac-hx0'')]"
  by (simp add: model_defs example_defs io_eval Let_def)

text \<open>
  Claim C7. When \<open>run_experiment\<close> enters the convergence loop (the network was started and
  the hosts \<open>hs\<close> discovered a first time), the loop returns if one of the views equals the
  expected counts and is still waiting otherwise, and its sleeps and host-discovery
  steps are those of the specification's backoff: after an iteration whose three counts
  match a sleep of 2 s, after any other a sleep of 10 s, followed by the ping and ARP
  step on every 5th unsuccessful iteration and on no other.
\<close>

theorem convergence_backoff:
  assumes "start_network cfg env self w0 = (Returns hs, w)"
  shows "\<exists>w' new. await_topology cfg env self hs (expected_counts self hs) views (0, 0, 0) 1 w
             = (if expected_counts self hs \<in> set views then Returns () else Waits, w')
           \<and> trace w' = trace w @ new
           \<and> filter backoff_event new
               = spec_backoff (ping_events cfg self hs) (expected_counts self hs) 0 views"
proof -
  from start_network_ReturnsD[OF assms] have h: "server self \<noteq> None" "ping_ok cfg self hs"
    by blast+
  from h(1) have "mismatch (0, 0, 0) (expected_counts self hs)"
    by (simp add: expected_counts_def mismatch_def Let_def)
  from await_topology_spec[OF h(2) this, of env views 0 w] show ?thesis
    by (auto simp del: await_topology.simps)
qed

theorem convergence_backoff_witness:
  "\<exists>w' new.
      await_topology example_config example_env example_self
        [HostNode (Host ''h1'' ''ip-h1'' ''mac-h1''), HostNode (Host ''h2'' ''ip-h2'' ''mac-h2''),
         HostNode (Host ''hs0'' ''ip-hs0'' ''mac-hs0''), HostNode (Host ''hx0'' ''ip-hx0'' ''mac-hx0'')]
        (4, 9, 5) [(0, 0, 0), (4, 0, 0), (4, 9, 0), (4, 9, 4), (3, 9, 5), (4, 9, 5)]
        (0, 0, 0) 1 (snd (start_network example_config example_env example_self example_world))
        = (Returns (), w')
    \<and> trace w'
        = trace (snd (start_network example_config example_env example_self example_world)) @ new
    \<and> filter backoff_event new
        = [Sleep 10, Sleep 10, Sleep 10, Sleep 10, Sleep 10,
           Ping ''h1'' ''hs0'', Ping ''h2'' ''hs0'', Ping ''hs0'' ''hs0'', Ping ''hx0'' ''hs0'',
           SetARP ''h1'', SetARP ''h2'', SetARP ''hs0'', SetARP ''hx0'',
           Sleep 2]"
proof -
  let ?hs = "[HostNode (Host ''h1'' ''ip-h1'' ''mac-h1''), HostNode (Host ''h2'' ''ip-h2'' ''mac-h2''),
         HostNode (Host ''hs0'' ''ip-hs0'' ''mac-hs0''), HostNode (Host ''hx0'' ''ip-hx0'' ''mac-hx0'')]"
  let ?w = "snd (start_network example_config example_env example_self example_world)"
  have s: "start_network example_config example_env example_self example_world = (Returns ?hs, ?w)"
    using example_start_network_hosts by (simp add: prod_eq_iff)
  have e: "expected_counts example_self ?hs = (4, 9, 5)"
    by (simp add: expected_counts_def example_defs Let_def)
  have p: "ping_events example_config example_self ?hs
      = [Ping ''h1'' ''hs0'', Ping ''h2'' ''hs0'', Ping ''hs0'' ''hs0'', Ping ''hx0'' ''hs0'',
         SetARP ''h1'', SetARP ''h2'', SetARP ''hs0'', SetARP ''hx0'']"
    by (simp add: ping_events_def example_defs)
  from convergence_backoff[OF s,
      of "[(0, 0, 0), (4, 0, 0), (4, 9, 0), (4, 9, 4), (3, 9, 5), (4, 9, 5)]"]
  show ?thesis unfolding e p by (simp del: await_topology.simps)
qed

lemma preceded:
  assumes "list_all (\<lambda>e. \<not> P e) a" "b \<noteq> [] \<longrightarrow> q \<in> set a"
  shows "\<forall>i<length (a @ b). P ((a @ b) ! i) \<longrightarrow> (\<exists>j<i. (a @ b) ! j = q)"
proof (intro allI impI)
  fix i assume i: "i < length (a @ b)" "P ((a @ b) ! i)"
  have "\<not> i < length a"
  proof
    assume "i < length a"
    with assms(1) i(2) show False by (simp add: list_all_length nth_append)
  qed
  with i(1) have "b \<noteq> []" by auto
  with assms(2) obtain j where j: "j < length a" "a ! j = q" by (auto simp: in_set_conv_nth)
  with \<open>\<not> i < length a\<close> show "\<exists>j<i. (a @ b) ! j = q"
    by (intro exI[of _ j]) (simp add: nth_append)
qed

lemma expected_counts_eq:
  "expected_counts self hs
     = (length hs,
        number_of_edges (topo self) + (if server self \<noteq> None then 1 else 0)
          + (if cloud self \<noteq> None then 1 else 0),
        length (get_switches (topo self)) + (if server self \<noteq> None then 1 else 0)
          + (if cloud self \<noteq> None then 1 else 0))"
  by (simp add: expected_counts_def Let_def)

lemma run_experiment_phases:
  "run_experiment cfg env self
     = bnd (start_network cfg env self) (\<lambda>hs.
       bnd (await_topology cfg env self hs (expected_counts self hs)
              (controller_views env) (0, 0, 0) 1) (\<lambda>_.
       bnd (setup_traffic_generators cfg env self) (\<lambda>_.
       bnd (setup_seismic_test cfg env self (publishers self) (subscribers self) (server self))
         (\<lambda>_. failure_model_phase cfg env self))))"
  unfolding run_experiment_def configure_experiment_def by (simp only: bnd_assoc)

lemma convergence_gate:
  fixes cfg :: config and env :: "'r environment" and self :: mininet_experiment
    and new :: "'r event list"
  defines "hs \<equiv> filter (\<lambda>h. Some h \<noteq> nat_node self) (net_hosts (net self))"
  defines "ex \<equiv> expected_counts self hs"
  assumes new: "trace (snd (run_experiment cfg env self w)) = trace w @ new"
  shows "(\<forall>i<length new. programs_or_launches (new ! i) \<longrightarrow>
            (\<exists>j<i. new ! j = BuildTopologyAdapter (fst ex) (fst (snd ex)) (snd (snd ex))))
        \<and> (ex \<notin> set (controller_views env) \<longrightarrow>
             \<not> returns (fst (run_experiment cfg env self w))
             \<and> list_all (\<lambda>e. \<not> programs_or_launches e) new)
        \<and> (ex \<notin> set (controller_views env) \<longrightarrow>
             returns (fst (start_network cfg env self w)) \<longrightarrow>
             fst (run_experiment cfg env self w) = Waits
             \<and> length (filter is_query new) = length (controller_views env))"
proof -
  let ?q = "BuildTopologyAdapter (fst ex) (fst (snd ex)) (snd (snd ex)) :: 'r event"
  let ?R = "bnd (setup_traffic_generators cfg env self) (\<lambda>_.
       bnd (setup_seismic_test cfg env self (publishers self) (subscribers self) (server self))
         (\<lambda>_. failure_model_phase cfg env self))"
  let ?K = "\<lambda>hs. bnd (await_topology cfg env self hs (expected_counts self hs)
              (controller_views env) (0, 0, 0) 1) (\<lambda>_. ?R)"
  have e1: "emits (\<lambda>e. \<not> programs_or_launches e \<and> \<not> is_query e) (start_network cfg env self)"
    by (rule emits_start_network_gen) simp_all
  from emitsD[OF e1, of w] obtain es1 where
    es1: "trace (snd (start_network cfg env self w)) = trace w @ es1"
      "list_all (\<lambda>e. \<not> programs_or_launches e \<and> \<not> is_query e) es1" by blast
  from es1(2) have q1: "filter is_query es1 = []" and p1: "list_all (\<lambda>e. \<not> programs_or_launches e) es1"
    by (simp_all add: list_all_iff filter_empty_conv)
  show ?thesis
  proof (cases rule: bnd_cases[of "start_network cfg env self" w ?K])
    case (Returns hs' w1)
    from start_network_ReturnsD[OF Returns(1)] have
      h: "hs' = hs" "server self \<noteq> None" "ping_ok cfg self hs" by (auto simp: hs_def)
    from h(2) have m: "mismatch (0, 0, 0) ex"
      by (simp add: ex_def expected_counts_eq mismatch_def)
    from await_topology_spec[OF h(3) m, of env "controller_views env" 0 w1]
    obtain w2 es2 where
      a: "await_topology cfg env self hs ex (controller_views env) (0, 0, 0) 1 w1
            = (if ex \<in> set (controller_views env) then Returns () else Waits, w2)"
        "trace w2 = trace w1 @ es2"
        "ex \<in> set (controller_views env) \<longrightarrow> ?q \<in> set es2"
        "ex \<notin> set (controller_views env) \<longrightarrow> length (filter is_query es2) = length (controller_views env)"
      by auto
    have "emits (\<lambda>e. \<not> programs_or_launches e)
            (await_topology cfg env self hs ex (controller_views env) (0, 0, 0) 1)"
      by (rule emits_await_topology_gen) simp_all
    from emitsD[OF this, of w1] a(1,2) have p2: "list_all (\<lambda>e. \<not> programs_or_launches e) es2"
      by auto
    from Returns(1) es1(1) have t1: "trace w1 = trace w @ es1" by simp
    have run: "run_experiment cfg env self w = ?K hs w1"
      unfolding run_experiment_phases using Returns(2) h(1) by simp
    show ?thesis
    proof (cases "ex \<in> set (controller_views env)")
      case True
      with a(1) have r: "run_experiment cfg env self w = ?R w2"
        unfolding run ex_def[symmetric] by (simp add: bnd_def)
      have "emits (\<lambda>_. True) ?R"
        by (intro emits_bnd emits_setup_traffic_generators_gen emits_setup_seismic_test
              emits_failure_model_phase) simp_all
      from emits_trace[OF this, of w2] obtain es3 where "trace (snd (?R w2)) = trace w2 @ es3"
        by blast
      with r new t1 a(2) have n: "new = (es1 @ es2) @ es3" by simp
      from p1 p2 have "list_all (\<lambda>e. \<not> programs_or_launches e) (es1 @ es2)" by simp
      moreover from True a(3) have "es3 \<noteq> [] \<longrightarrow> ?q \<in> set (es1 @ es2)" by simp
      ultimately have "\<forall>i<length ((es1 @ es2) @ es3).
          programs_or_launches (((es1 @ es2) @ es3) ! i) \<longrightarrow>
          (\<exists>j<i. ((es1 @ es2) @ es3) ! j = ?q)"
        by (rule preceded)
      with True show ?thesis unfolding n by blast
    next
      case False
      with a(1) have r: "run_experiment cfg env self w = (Waits, w2)"
        unfolding run ex_def[symmetric] by (simp add: bnd_def)
      with new t1 a(2) have n: "new = (es1 @ es2) @ []" by simp
      from p1 p2 have l: "list_all (\<lambda>e. \<not> programs_or_launches e) (es1 @ es2)" by simp
      then have "\<forall>i<length ((es1 @ es2) @ []).
          programs_or_launches (((es1 @ es2) @ []) ! i) \<longrightarrow>
          (\<exists>j<i. ((es1 @ es2) @ []) ! j = ?q)"
        by (rule preceded) simp
      moreover from False a(4) q1 have "length (filter is_query ((es1 @ es2) @ []))
          = length (controller_views env)" by simp
      moreover from l have "list_all (\<lambda>e. \<not> programs_or_launches e) ((es1 @ es2) @ [])" by simp
      moreover from r have "\<not> returns (fst (run_experiment cfg env self w))"
        "fst (run_experiment cfg env self w) = Waits" by (simp_all add: returns_def)
      ultimately show ?thesis unfolding n by blast
    qed
  next
    case (Raises e w1)
    then have r: "run_experiment cfg env self w = (Raises e, w1)"
      unfolding run_experiment_phases by simp
    with new es1(1) Raises(1) have n: "new = es1 @ []" by simp
    from p1 have "\<forall>i<length (es1 @ []). programs_or_launches ((es1 @ []) ! i) \<longrightarrow>
          (\<exists>j<i. (es1 @ []) ! j = ?q)"
      by (rule preceded) simp
    moreover from p1 have "list_all (\<lambda>e. \<not> programs_or_launches e) (es1 @ [])" by simp
    moreover from r Raises(1) have "\<not> returns (fst (run_experiment cfg env self w))"
      "\<not> returns (fst (start_network cfg env self w))" by (simp_all add: returns_def)
    ultimately show ?thesis unfolding n by blast
  next
    case (Waits w1)
    then have r: "run_experiment cfg env self w = (Waits, w1)"
      unfolding run_experiment_phases by simp
    with new es1(1) Waits(1) have n: "new = es1 @ []" by simp
    from p1 have "\<forall>i<length (es1 @ []). programs_or_launches ((es1 @ []) ! i) \<longrightarrow>
          (\<exists>j<i. (es1 @ []) ! j = ?q)"
      by (rule preceded) simp
    moreover from p1 have "list_all (\<lambda>e. \<not> programs_or_launches e) (es1 @ [])" by simp
    moreover from r Waits(1) have "\<not> returns (fst (run_experiment cfg env self w))"
      "\<not> returns (fst (start_network cfg env self w))" by (simp_all add: returns_def)
    ultimately show ?thesis unfolding n by blast
  qed
qed

lemma programs_or_launches_map_event:
  "programs_or_launches (map_event f e) = programs_or_launches e"
  by (cases e) simp_all

lemma example_start_network:
  "returns (fst (start_network example_config (example_env\<lparr>controller_views := [(0, 0, 0), (4, 9, 4)]\<rparr>)
                   example_self example_world))"
  by (simp add: model_defs example_defs io_eval Let_def returns_def)

text \<open>
  Claim C2. Among the events of a run, every flow-rule installation and every process
  launch comes after a query of the controller that answered with the expected counts:
  as many hosts as the emulation has without the NAT, the edges of the topology model
  plus one for the server and one for the cloud, and the switches of the topology model
  plus one for the server and one for the cloud. When no view of the controller has
  these counts the run does not return and installs and launches nothing; once the
  network has started it is then still in the loop, having queried the controller once
  per view, however many views there are.
\<close>

theorem convergence_before_programming:
  assumes "trace (snd (run_experiment cfg env self w)) = trace w @ new"
    and "nhosts = length (filter (\<lambda>h. Some h \<noteq> nat_node self) (net_hosts (net self)))"
    and "nlinks = number_of_edges (topo self) + (if server self \<noteq> None then 1 else 0)
                    + (if cloud self \<noteq> None then 1 else 0)"
    and "nswitches = length (get_switches (topo self)) + (if server self \<noteq> None then 1 else 0)
                    + (if cloud self \<noteq> None then 1 else 0)"
  shows "(\<forall>i<length new. programs_or_launches (new ! i) \<longrightarrow>
            (\<exists>j<i. new ! j = BuildTopologyAdapter nhosts nlinks nswitches))
        \<and> ((nhosts, nlinks, nswitches) \<notin> set (controller_views env) \<longrightarrow>
             \<not> returns (fst (run_experiment cfg env self w))
             \<and> list_all (\<lambda>e. \<not> programs_or_launches e) new)
        \<and> ((nhosts, nlinks, nswitches) \<notin> set (controller_views env) \<longrightarrow>
             returns (fst (start_network cfg env self w)) \<longrightarrow>
             fst (run_experiment cfg env self w) = Waits
             \<and> length (filter is_query new) = length (controller_views env))"
proof -
  have "expected_counts self (filter (\<lambda>h. Some h \<noteq> nat_node self) (net_hosts (net self)))
          = (nhosts, nlinks, nswitches)"
    unfolding assms(2-4) by (rule expected_counts_eq)
  with convergence_gate[OF assms(1)] show ?thesis by simp
qed

theorem convergence_before_programming_witness:
  "(\<exists>j<22. trace (snd (run_experiment example_config example_env example_self example_world)) ! j
              = BuildTopologyAdapter 4 9 5)
   \<and> fst (run_experiment example_config (example_env\<lparr>controller_views := [(0, 0, 0), (4, 9, 4)]\<rparr>)
           example_self example_world) = Waits
   \<and> length (filter is_query (trace (snd (run_experiment example_config
         (example_env\<lparr>controller_views := [(0, 0, 0), (4, 9, 4)]\<rparr>) example_self example_world))))
       = 2"
proof -
  let ?env = "example_env\<lparr>controller_views := [(0, 0, 0), (4, 9, 4)]\<rparr>"
  let ?new = "trace (snd (run_experiment example_config example_env example_self example_world))"
  let ?new' = "trace (snd (run_experiment example_config ?env example_self example_world))"
  have w: "trace example_world = []" by (simp add: example_world_def)
  have c: "(4::nat) = length (filter (\<lambda>h. Some h \<noteq> nat_node example_self)
                                (net_hosts (net example_self)))"
    "(9::nat) = number_of_edges (topo example_self)
          + (if server example_self \<noteq> None then 1 else 0)
          + (if cloud example_self \<noteq> None then 1 else 0)"
    "(5::nat) = length (get_switches (topo example_self))
          + (if server example_self \<noteq> None then 1 else 0)
          + (if cloud example_self \<noteq> None then 1 else 0)"
    by (simp_all add: example_defs)
  have n: "?new = trace example_world @ ?new" "?new' = trace example_world @ ?new'"
    by (simp_all add: w)
  note t = convergence_before_programming[OF n(1) c]
  have m: "map (map_event (\<lambda>_. ())) ?new ! 22 = IperfClient ''h2'' 5000"
    "length (map (map_event (\<lambda>_. ())) ?new) = 45"
  proof -
    note e = example_run[unfolded prod.case_eq_if, THEN conjunct2, THEN conjunct2, THEN conjunct2]
    show "map (map_event (\<lambda>_. ())) ?new ! 22 = IperfClient ''h2'' 5000"
      unfolding e by simp
    show "length (map (map_event (\<lambda>_. ())) ?new) = 45"
      unfolding e by simp
  qed
  from m(2) have l: "22 < length ?new" by simp
  with m(1) have "map_event (\<lambda>_. ()) (?new ! 22) = IperfClient ''h2'' 5000"
    by (simp only: nth_map)
  then have "programs_or_launches (map_event (\<lambda>_. ()) (?new ! 22))" by simp
  then have "programs_or_launches (?new ! 22)"
    by (simp only: programs_or_launches_map_event)
  with t[THEN conjunct1, rule_format, OF l]
  have a: "\<exists>j<22. ?new ! j = BuildTopologyAdapter 4 9 5" by blast
  have v: "(4, 9, 5) \<notin> set (controller_views ?env)" by (simp add: example_env_def)
  note t' = convergence_before_programming[OF n(2) c]
  from t'[THEN conjunct2, THEN conjunct2, rule_format, OF v example_start_network]
  have b: "fst (run_experiment example_config ?env example_self example_world) = Waits
     \<and> length (filter is_query ?new') = length (controller_views ?env)" .
  have "length (controller_views ?env) = 2" by (simp add: example_env_def)
  with a b show ?thesis by simp
qed

section \<open>\<open>setup_topology\<close> without a cloud\<close>

text \<open>
  Claim C8. When \<open>with_cloud\<close> is false, the body of the loop over the clouds (lines
  254-271) adds no switch, no link and no cloud switch, but it calls \<open>addHost\<close> twice: the
  emulation gets two hosts of the cloud's name, not one.
\<close>

theorem setup_topology_without_cloud:
  assumes "\<not> with_cloud self"
  shows "net_hosts (net (add_cloud cfg self cl))
           = net_hosts (net self)
             @ [HostNode (Host cl (auto_ip (nextIP (net self))) (auto_mac (nextIP (net self)))),
                HostNode (Host cl (auto_ip (nextIP (net self) + 1))
                            (auto_mac (nextIP (net self) + 1)))]
         \<and> net_switches (net (add_cloud cfg self cl)) = net_switches (net self)
         \<and> net_links (net (add_cloud cfg self cl)) = net_links (net self)
         \<and> cloud_switches (add_cloud cfg self cl) = cloud_switches self"
  using assms by (simp add: add_cloud_def addHost_def Let_def)

theorem setup_topology_without_cloud_witness:
  "\<not> with_cloud (example_self0\<lparr>with_cloud := False\<rparr>)
   \<and> net_hosts (net (add_cloud example_config (example_self0\<lparr>with_cloud := False\<rparr>) ''x0''))
       = [HostNode (Host ''x0'' (auto_ip 1) (auto_mac 1)),
          HostNode (Host ''x0'' (auto_ip 2) (auto_mac 2))]
   \<and> cloud_switches (add_cloud example_config (example_self0\<lparr>with_cloud := False\<rparr>) ''x0'') = []
   \<and> setup_topology example_config example_topology (example_self0\<lparr>with_cloud := False\<rparr>)
       = Inr example_self_no_cloud
   \<and> filter (\<lambda>n. node_name n = ''x0'') (net_hosts (net example_self_no_cloud))
       = [HostNode (Host ''x0'' (auto_ip 4) (auto_mac 4)),
          HostNode (Host ''x0'' (auto_ip 5) (auto_mac 5))]
   \<and> filter (\<lambda>s. s_name s = ''x0'') (net_switches (net example_self_no_cloud)) = []
   \<and> cloud_switches example_self_no_cloud = []"
proof -
  have f: "\<not> with_cloud (example_self0\<lparr>with_cloud := False\<rparr>)" by simp
  have n: "net_hosts (net (example_self0\<lparr>with_cloud := False\<rparr>)) = []"
    "nextIP (net (example_self0\<lparr>with_cloud := False\<rparr>)) = 1"
    "cloud_switches (example_self0\<lparr>with_cloud := False\<rparr>) = []"
    by (simp_all add: example_self0_def Mininet_def)
  from setup_topology_without_cloud[OF f, of example_config "''x0''"] n
  have a: "net_hosts (net (add_cloud example_config (example_self0\<lparr>with_cloud := False\<rparr>) ''x0''))
       = [HostNode (Host ''x0'' (auto_ip 1) (auto_mac 1)),
          HostNode (Host ''x0'' (auto_ip 2) (auto_mac 2))]"
    "cloud_switches (add_cloud example_config (example_self0\<lparr>with_cloud := False\<rparr>) ''x0'') = []"
    by (simp_all add: numeral_2_eq_2)
  have b: "filter (\<lambda>n. node_name n = ''x0'') (net_hosts (net example_self_no_cloud))
       = [HostNode (Host ''x0'' (auto_ip 4) (auto_mac 4)),
          HostNode (Host ''x0'' (auto_ip 5) (auto_mac 5))]"
    "filter (\<lambda>s. s_name s = ''x0'') (net_switches (net example_self_no_cloud)) = []"
    "cloud_switches example_self_no_cloud = []"
    by (simp_all add: example_self_no_cloud_def example_net_no_cloud_def example_self0_def)
  from f a b example_setup_topology_no_cloud show ?thesis by simp
qed

end
